theory Spec2Isabelle
  imports Main "HOL-Library.Word" "HOL-Library.Multiset"
begin

section \<open>The PC sampling collector of proton (CuptiPCSampling.cpp)\<close>

text \<open>
  A shallow embedding of \<^verbatim>\<open>third_party/proton/csrc/lib/Profiler/Cupti/CuptiPCSampling.cpp\<close>.
  Every function of the file is a HOL function of the same name. The members of the
  \<^verbatim>\<open>CuptiPCSampling\<close> object, the data set of the profiler and the sequence of
  state-changing driver calls issued so far form one record that is passed in and
  returned. The answers of the CUPTI/CUDA driver and the constants of headers that are
  not part of the sources are parameters (the record \<open>platform\<close>). The model is
  sequential: \<^verbatim>\<open>doubleCheckedLock(cond, mutex, f)\<close> runs \<open>f\<close> when \<open>cond\<close> holds and
  does nothing otherwise. Driver calls made through \<^verbatim>\<open>cupti::f<true>\<close> are taken to
  succeed; the one call made through \<^verbatim>\<open><false>\<close>, the SASS-to-source correlation,
  may fail.
\<close>

subsection \<open>Data\<close>

text \<open>\<^verbatim>\<open>CUcontext\<close> is an opaque handle; the null handle is 0.\<close>

type_synonym CUcontext = nat

text \<open>
  \<^verbatim>\<open>CubinData::LineInfoValue\<close>, built at line 361 from
  \<^verbatim>\<open>(lineNumber, functionName, dirName, fileName)\<close> and read at lines 374 to 379.
\<close>

record LineInfoValue =
  lineNumber :: "32 word"
  functionName :: string
  dirName :: string
  fileName :: string

text \<open>
  \<^verbatim>\<open>CubinData\<close>: the checksum, the caller-owned binary (\<open>None\<close> is the null pointer),
  its size, and the cache of line information keyed by
  \<^verbatim>\<open>LineInfoKey{functionIndex, pcOffset}\<close>.
\<close>

record CubinData =
  cubinCrc :: "64 word"
  cubin :: "string option"
  cubinSize :: nat
  lineInfo :: "(32 word \<times> 64 word) \<rightharpoonup> LineInfoValue"

text \<open>The CUPTI structures, with the fields the file reads or writes.\<close>

record CUpti_PCSamplingStallReason =
  pcSamplingStallReasonIndex :: "32 word"
  samples :: "32 word"

record CUpti_PCSamplingPCData =
  pc_cubinCrc :: "64 word"
  pcOffset :: "64 word"
  functionIndex :: "32 word"
  pc_functionName :: string
  stallReasonCount :: nat
  stallReason :: "CUpti_PCSamplingStallReason list"

record CUpti_PCSamplingData =
  size_bytes :: "64 word"
  collectNumPcs :: nat
  totalNumPcs :: nat
  remainingNumPcs :: nat
  pPcData :: "CUpti_PCSamplingPCData list"

datatype CUpti_PCSamplingConfigurationInfo =
    ATTR_TYPE_STALL_REASON nat "32 word list"
  | ATTR_TYPE_SAMPLING_PERIOD nat
  | ATTR_TYPE_HARDWARE_BUFFER_SIZE nat
  | ATTR_TYPE_SCRATCH_BUFFER_SIZE nat
  | ATTR_TYPE_SAMPLING_DATA_BUFFER CUpti_PCSamplingData
  | ATTR_TYPE_ENABLE_START_STOP_CONTROL bool
  | ATTR_TYPE_COLLECTION_MODE_CONTINUOUS

text \<open>
  \<^verbatim>\<open>ConfigureData\<close> (the member \<^verbatim>\<open>context\<close> is called \<open>cuContext\<close> here). The keys
  of the map and of the set are \<^verbatim>\<open>size_t\<close> values, read as natural numbers.
\<close>

record ConfigureData =
  cuContext :: CUcontext
  contextId :: "32 word"
  numStallReasons :: nat
  numValidStallReasons :: nat
  stallReasonNames :: "string list"
  stallReasonIndices :: "32 word list"
  stallReasonIndexToMetricIndex :: "nat \<rightharpoonup> nat"
  notIssuedStallReasonIndices :: "nat set"
  pcSamplingData :: CUpti_PCSamplingData
  configurationInfos :: "CUpti_PCSamplingConfigurationInfo list"

text \<open>
  Modelled from the spec: the metric handed to the metric store,
  \<^verbatim>\<open>metric = {kind, sampleCount, activeStallCount}\<close> (Data/Metric.h is not part of the
  sources). The kind is the index into the metric taxonomy.
\<close>

datatype PCSamplingMetric =
  PCSamplingMetric (metricKind: nat) (sampleCount: nat) (activeStallCount: nat)

text \<open>
  Modelled from the spec: a downstream data sink (Data/Data.h is not part of the
  sources). \<^verbatim>\<open>addScope(parentScopeId, name)\<close> creates or returns the existing child
  scope of that name under the parent; \<^verbatim>\<open>addMetric(scopeId, metric)\<close> records the
  metric under the scope. The sink keeps the table of child scopes, the next unused
  scope id and the metrics in the order they were added.
\<close>

record Data =
  scopes :: "(nat \<times> string) \<rightharpoonup> nat"
  nextScopeId :: nat
  metrics :: "(nat \<times> PCSamplingMetric) list"

definition addScope :: "nat \<Rightarrow> string \<Rightarrow> Data \<Rightarrow> nat \<times> Data" where
  "addScope parentScopeId name d =
     (case scopes d (parentScopeId, name) of
        Some scopeId \<Rightarrow> (scopeId, d)
      | None \<Rightarrow>
          (nextScopeId d,
           d\<lparr>scopes := (scopes d)((parentScopeId, name) \<mapsto> nextScopeId d),
             nextScopeId := Suc (nextScopeId d)\<rparr>))"

definition addMetric :: "nat \<Rightarrow> PCSamplingMetric \<Rightarrow> Data \<Rightarrow> Data" where
  "addMetric scopeId metric d = d\<lparr>metrics := metrics d @ [(scopeId, metric)]\<rparr>"

text \<open>The driver calls that change the state of the device, in the order issued.\<close>

datatype driver_call =
    pcSamplingEnable CUcontext
  | pcSamplingDisable CUcontext
  | pcSamplingStart CUcontext
  | pcSamplingStop CUcontext
  | pcSamplingGetData CUcontext
  | pcSamplingSetConfigurationAttribute CUcontext "CUpti_PCSamplingConfigurationInfo list"
  | ctxSynchronize

text \<open>What the driver leaves in the parameter block of a SASS-to-source query.\<close>

datatype correlation =
    CorrelationFailed
  | Correlated "32 word" "string option" "string option"

text \<open>
  The parameters of the model: the answers of the driver and the constants of the
  headers that are not part of the sources.
  \<^item> \<open>cupti_pcSamplingGetStallReasons c i\<close> is the name and the index that the driver
    writes into slot \<open>i\<close> of the two arrays;
  \<^item> \<open>cupti_pcSamplingGetData calls buf\<close> is the buffer after the driver has refilled
    \<open>buf\<close>, given the driver calls issued before;
  \<^item> \<open>VALUE_NAMES\<close> lists \<^verbatim>\<open>PCSamplingMetric().getValueName(j)\<close> for
    \<^verbatim>\<open>j < PCSamplingMetricKind::Count\<close>;
  \<^item> \<open>sizeof_PCData\<close> is \<^verbatim>\<open>sizeof(CUpti_PCSamplingPCData)\<close> of the header compiled
    against, \<open>CUPTI_API_VERSION\<close> the version of that header.
\<close>

record platform =
  cupti_getContextId :: "CUcontext \<Rightarrow> 32 word"
  cupti_getCubinCrc :: "string \<Rightarrow> nat \<Rightarrow> 64 word"
  cupti_getVersion :: "32 word"
  cupti_pcSamplingGetNumStallReasons :: "CUcontext \<Rightarrow> nat"
  cupti_pcSamplingGetStallReasons :: "CUcontext \<Rightarrow> nat \<Rightarrow> string \<times> 32 word"
  cupti_getSassToSourceCorrelation ::
    "string option \<Rightarrow> string \<Rightarrow> nat \<Rightarrow> 64 word \<Rightarrow> correlation"
  cupti_pcSamplingGetData ::
    "driver_call list \<Rightarrow> CUpti_PCSamplingData \<Rightarrow> CUpti_PCSamplingData"
  VALUE_NAMES :: "string list"
  CUPTI_API_VERSION :: int
  sizeof_PCData :: "64 word"
  DefaultFrequency :: nat
  HardwareBufferSize :: nat
  ScratchBufferSize :: nat
  DataBufferPCCount :: nat

text \<open>
  The state: the members of \<^verbatim>\<open>CuptiPCSampling\<close>, the data set of the profiler
  (\<^verbatim>\<open>CuptiProfiler::instance().getDataSet()\<close>) and the driver calls issued so far.
  The second component of an entry of \<open>cubinCrcToCubinData\<close> is the count that
  \<^verbatim>\<open>unloadModule\<close> reads (\<^verbatim>\<open>.second\<close>).
\<close>

record CuptiPCSampling =
  contextIdToConfigureData :: "32 word \<rightharpoonup> ConfigureData"
  cubinCrcToCubinData :: "64 word \<rightharpoonup> CubinData \<times> nat"
  contextInitialized :: "32 word set"
  pcSamplingStarted :: bool
  dataSet :: "Data list"
  driverCalls :: "driver_call list"

subsection \<open>Map access\<close>

text \<open>
  \<^verbatim>\<open>m[k]\<close> of a C++ map: the entry of \<open>k\<close>, inserted value-initialised when the key
  is absent. The result is the entry and the map after the access.
\<close>

definition subscript :: "('k \<rightharpoonup> 'v) \<Rightarrow> 'k \<Rightarrow> 'v \<Rightarrow> 'v \<times> ('k \<rightharpoonup> 'v)" where
  "subscript m k dflt = (case m k of Some v \<Rightarrow> (v, m) | None \<Rightarrow> (dflt, m(k \<mapsto> dflt)))"

text \<open>Value-initialised objects: zero numbers, null pointers, empty containers.\<close>

definition default_CubinData :: CubinData where
  "default_CubinData = \<lparr>cubinCrc = 0, cubin = None, cubinSize = 0, lineInfo = Map.empty\<rparr>"

definition default_PCSamplingData :: CUpti_PCSamplingData where
  "default_PCSamplingData =
     \<lparr>size_bytes = 0, collectNumPcs = 0, totalNumPcs = 0, remainingNumPcs = 0, pPcData = []\<rparr>"

definition default_ConfigureData :: ConfigureData where
  "default_ConfigureData =
     \<lparr>cuContext = 0, contextId = 0, numStallReasons = 0, numValidStallReasons = 0,
      stallReasonNames = [], stallReasonIndices = [],
      stallReasonIndexToMetricIndex = Map.empty, notIssuedStallReasonIndices = {},
      pcSamplingData = default_PCSamplingData, configurationInfos = []\<rparr>"

subsection \<open>The module registry\<close>

definition getCubinCrc :: "platform \<Rightarrow> string \<Rightarrow> nat \<Rightarrow> 64 word" where
  "getCubinCrc drv img n = cupti_getCubinCrc drv img n"

text \<open>
  \<^verbatim>\<open>getCubinData(crc)\<close> returns \<^verbatim>\<open>&(cubinCrcToCubinData[crc].first)\<close>: the entry is
  created when absent.
\<close>

definition getCubinData :: "64 word \<Rightarrow> CuptiPCSampling \<Rightarrow> CubinData \<times> CuptiPCSampling" where
  "getCubinData crc s =
     (case subscript (cubinCrcToCubinData s) crc (default_CubinData, 0) of
        (e, m) \<Rightarrow> (fst e, s\<lparr>cubinCrcToCubinData := m\<rparr>))"

text \<open>
  \<^verbatim>\<open>loadModule\<close> writes the three fields of the entry's \<^verbatim>\<open>CubinData\<close> through the
  pointer that \<^verbatim>\<open>getCubinData\<close> returns; it does not touch the count.
\<close>

definition loadModule :: "platform \<Rightarrow> string \<Rightarrow> nat \<Rightarrow> CuptiPCSampling \<Rightarrow> CuptiPCSampling" where
  "loadModule drv img n s =
     (let crc = getCubinCrc drv img n in
      case subscript (cubinCrcToCubinData s) crc (default_CubinData, 0) of
        (e, m) \<Rightarrow>
          s\<lparr>cubinCrcToCubinData :=
              m(crc \<mapsto> ((fst e)\<lparr>cubinCrc := crc, cubinSize := n, cubin := Some img\<rparr>, snd e))\<rparr>)"

definition unloadModule :: "platform \<Rightarrow> string \<Rightarrow> nat \<Rightarrow> CuptiPCSampling \<Rightarrow> CuptiPCSampling" where
  "unloadModule drv img n s =
     (let crc = getCubinCrc drv img n in
      case subscript (cubinCrcToCubinData s) crc (default_CubinData, 0) of
        (e, m) \<Rightarrow>
          (let count = snd e in
           if count > 1 then s\<lparr>cubinCrcToCubinData := m(crc \<mapsto> (fst e, count - 1))\<rparr>
           else s\<lparr>cubinCrcToCubinData := m(crc := None)\<rparr>))"

subsection \<open>Strings\<close>

text \<open>\<open>contains s t\<close> is \<^verbatim>\<open>s.find(t) != std::string::npos\<close>.\<close>

fun starts_with :: "string \<Rightarrow> string \<Rightarrow> bool" where
  "starts_with s [] = True"
| "starts_with [] (c # t) = False"
| "starts_with (x # s) (c # t) = (x = c \<and> starts_with s t)"

fun contains :: "string \<Rightarrow> string \<Rightarrow> bool" where
  "contains [] t = (t = [])"
| "contains (x # s) t = (starts_with (x # s) t \<or> contains s t)"

text \<open>\<^verbatim>\<open>std::to_string\<close> of an unsigned number: its decimal digits.\<close>

fun to_string :: "nat \<Rightarrow> string" where
  "to_string n =
     (if n < 10 then [char_of (48 + n)]
      else to_string (n div 10) @ [char_of (48 + n mod 10)])"

declare to_string.simps [simp del]

subsection \<open>Matching stall reasons (lines 91 to 128)\<close>

text \<open>
  The inner loop over \<^verbatim>\<open>j < Count\<close>: the first metric whose name occurs in the stall
  reason's name, \<open>None\<close> when the loop ends without a \<^verbatim>\<open>break\<close>.
\<close>

fun find_metric :: "string list \<Rightarrow> nat \<Rightarrow> string \<Rightarrow> nat option" where
  "find_metric [] j cuptiStallName = None"
| "find_metric (metricName # rest) j cuptiStallName =
     (if contains cuptiStallName metricName then Some j
      else find_metric rest (Suc j) cuptiStallName)"

text \<open>A stall reason's name is matched when the inner loop finds a metric for it.\<close>

definition matched :: "string list \<Rightarrow> string \<Rightarrow> bool" where
  "matched valueNames cuptiStallName = (find_metric valueNames 0 cuptiStallName \<noteq> None)"

text \<open>
  One round of the first loop. The state is the map, the set of not-issued indices,
  \<^verbatim>\<open>validIndex\<close> and \<^verbatim>\<open>numValidStalls\<close>.
\<close>

definition match_round ::
  "string list \<Rightarrow> string list \<Rightarrow> 32 word list \<Rightarrow> nat \<Rightarrow>
   (nat \<rightharpoonup> nat) \<times> nat set \<times> bool list \<times> nat \<Rightarrow>
   (nat \<rightharpoonup> nat) \<times> nat set \<times> bool list \<times> nat" where
  "match_round valueNames names idxs i st =
     (case st of (toMetric, notIssuedSet, validIndex, numValidStalls) \<Rightarrow>
        (let notIssued = contains (names ! i) ''not_issued'';
             cuptiStallName = names ! i
         in case find_metric valueNames 0 cuptiStallName of
              None \<Rightarrow> st
            | Some j \<Rightarrow>
                ((toMetric)(unat (idxs ! i) \<mapsto> j),
                 (if notIssued then insert (unat (idxs ! i)) notIssuedSet else notIssuedSet),
                 validIndex[i := True],
                 numValidStalls + 1)))"

text \<open>The conversion of \<^verbatim>\<open>size_t i\<close> to \<^verbatim>\<open>int invalidIndex\<close> (32 bits, two's complement).\<close>

definition int_of_size_t :: "nat \<Rightarrow> int" where
  "int_of_size_t i = sint (word_of_nat i :: 32 word)"

text \<open>
  One round of the second loop. The state is the two arrays, \<^verbatim>\<open>validIndex\<close> and
  \<^verbatim>\<open>invalidIndex\<close>.
\<close>

definition swap_round ::
  "nat \<Rightarrow> string list \<times> 32 word list \<times> bool list \<times> int \<Rightarrow>
   string list \<times> 32 word list \<times> bool list \<times> int" where
  "swap_round i st =
     (case st of (names, idxs, validIndex, invalidIndex) \<Rightarrow>
        if invalidIndex = - 1 \<and> \<not> validIndex ! i then
          (names, idxs, validIndex, int_of_size_t i)
        else if invalidIndex \<noteq> - 1 \<and> validIndex ! i then
          (names[nat invalidIndex := names ! i, i := names ! nat invalidIndex],
           idxs[nat invalidIndex := idxs ! i, i := idxs ! nat invalidIndex],
           validIndex[nat invalidIndex := True],
           invalidIndex + 1)
        else st)"

text \<open>
  The result is \<^verbatim>\<open>numValidStalls\<close> and the four objects the function changes in
  place: the two arrays, the map and the set.
\<close>

definition matchStallReasonsToIndices ::
  "string list \<Rightarrow> nat \<Rightarrow> string list \<Rightarrow> 32 word list \<Rightarrow> (nat \<rightharpoonup> nat) \<Rightarrow> nat set \<Rightarrow>
   nat \<times> string list \<times> 32 word list \<times> (nat \<rightharpoonup> nat) \<times> nat set" where
  "matchStallReasonsToIndices valueNames n names idxs toMetric notIssuedSet =
     (case fold (match_round valueNames names idxs) [0..<n]
             (toMetric, notIssuedSet, replicate n False, 0) of
        (toMetric', notIssuedSet', validIndex, numValidStalls) \<Rightarrow>
          (case fold swap_round [0..<n] (names, idxs, validIndex, - 1) of
             (names', idxs', validIndex', invalidIndex) \<Rightarrow>
               (numValidStalls, names', idxs', toMetric', notIssuedSet')))"

subsection \<open>The data buffer (lines 130 to 157)\<close>

definition CUPTI_CUDA12_4_VERSION :: nat where
  "CUPTI_CUDA12_4_VERSION = 22"

definition CUPTI_CUDA12_4_PC_DATA_PADDING_SIZE :: "64 word" where
  "CUPTI_CUDA12_4_PC_DATA_PADDING_SIZE = 4"

text \<open>What \<^verbatim>\<open>calloc\<close> returns: zeroed records.\<close>

definition zero_StallReason :: CUpti_PCSamplingStallReason where
  "zero_StallReason = \<lparr>pcSamplingStallReasonIndex = 0, samples = 0\<rparr>"

definition zero_PCData :: CUpti_PCSamplingPCData where
  "zero_PCData =
     \<lparr>pc_cubinCrc = 0, pcOffset = 0, functionIndex = 0, pc_functionName = [],
      stallReasonCount = 0, stallReason = []\<rparr>"

text \<open>
  \<^verbatim>\<open>pcDataSize\<close> is a \<^verbatim>\<open>size_t\<close> (64 bits); \<^verbatim>\<open>libVersion\<close> is compared as an unsigned
  32-bit number, the version of the header as an \<^verbatim>\<open>int\<close>.
\<close>

definition allocPCSamplingData :: "platform \<Rightarrow> nat \<Rightarrow> nat \<Rightarrow> CUpti_PCSamplingData" where
  "allocPCSamplingData drv collectNumPCs numValid =
     (let libVersion = cupti_getVersion drv;
          pcDataSize = sizeof_PCData drv;
          pcDataSize =
            (if libVersion < of_nat CUPTI_CUDA12_4_VERSION
                \<and> CUPTI_API_VERSION drv \<ge> int CUPTI_CUDA12_4_VERSION
             then pcDataSize - CUPTI_CUDA12_4_PC_DATA_PADDING_SIZE
             else pcDataSize)
      in \<lparr>size_bytes = pcDataSize, collectNumPcs = collectNumPCs,
          totalNumPcs = 0, remainingNumPcs = 0,
          pPcData = replicate collectNumPCs
                      (zero_PCData\<lparr>stallReason := replicate numValid zero_StallReason\<rparr>)\<rparr>)"

subsection \<open>Driver calls (lines 159 to 217)\<close>

definition issue :: "driver_call \<Rightarrow> CuptiPCSampling \<Rightarrow> CuptiPCSampling" where
  "issue c s = s\<lparr>driverCalls := driverCalls s @ [c]\<rparr>"

definition enablePCSampling :: "CUcontext \<Rightarrow> CuptiPCSampling \<Rightarrow> CuptiPCSampling" where
  "enablePCSampling c s = issue (pcSamplingEnable c) s"

definition disablePCSampling :: "CUcontext \<Rightarrow> CuptiPCSampling \<Rightarrow> CuptiPCSampling" where
  "disablePCSampling c s = issue (pcSamplingDisable c) s"

definition startPCSampling :: "CUcontext \<Rightarrow> CuptiPCSampling \<Rightarrow> CuptiPCSampling" where
  "startPCSampling c s = issue (pcSamplingStart c) s"

definition stopPCSampling :: "CUcontext \<Rightarrow> CuptiPCSampling \<Rightarrow> CuptiPCSampling" where
  "stopPCSampling c s = issue (pcSamplingStop c) s"

definition getPCSamplingData ::
  "platform \<Rightarrow> CUcontext \<Rightarrow> CUpti_PCSamplingData \<Rightarrow> CuptiPCSampling \<Rightarrow>
   CUpti_PCSamplingData \<times> CuptiPCSampling" where
  "getPCSamplingData drv c buf s =
     (cupti_pcSamplingGetData drv (driverCalls s) buf, issue (pcSamplingGetData c) s)"

definition setConfigurationAttribute ::
  "CUcontext \<Rightarrow> CUpti_PCSamplingConfigurationInfo list \<Rightarrow> CuptiPCSampling \<Rightarrow> CuptiPCSampling" where
  "setConfigurationAttribute c infos s = issue (pcSamplingSetConfigurationAttribute c infos) s"

subsection \<open>Configuration of a context (lines 27 to 36, 68 to 89, 221 to 305)\<close>

definition getNumStallReasons :: "platform \<Rightarrow> CUcontext \<Rightarrow> nat" where
  "getNumStallReasons drv c = cupti_pcSamplingGetNumStallReasons drv c"

text \<open>Two arrays of \<^verbatim>\<open>numStallReasons\<close> entries each, filled by the driver.\<close>

definition getStallReasonNamesAndIndices ::
  "platform \<Rightarrow> CUcontext \<Rightarrow> nat \<Rightarrow> string list \<times> 32 word list" where
  "getStallReasonNamesAndIndices drv c n =
     (map (\<lambda>i. fst (cupti_pcSamplingGetStallReasons drv c i)) [0..<n],
      map (\<lambda>i. snd (cupti_pcSamplingGetStallReasons drv c i)) [0..<n])"

text \<open>
  Each \<^verbatim>\<open>configure...\<close> member returns the configuration entry and the object after
  the call.
\<close>

definition configureStallReasons ::
  "platform \<Rightarrow> ConfigureData \<Rightarrow> CUpti_PCSamplingConfigurationInfo \<times> ConfigureData" where
  "configureStallReasons drv cfg =
     (let n = getNumStallReasons drv (cuContext cfg) in
      case getStallReasonNamesAndIndices drv (cuContext cfg) n of
        (names, idxs) \<Rightarrow>
          (case matchStallReasonsToIndices (VALUE_NAMES drv) n names idxs
                  (stallReasonIndexToMetricIndex cfg) (notIssuedStallReasonIndices cfg) of
             (numValid, names', idxs', toMetric, notIssuedSet) \<Rightarrow>
               (ATTR_TYPE_STALL_REASON numValid idxs',
                cfg\<lparr>numStallReasons := n,
                    stallReasonNames := names',
                    stallReasonIndices := idxs',
                    numValidStallReasons := numValid,
                    stallReasonIndexToMetricIndex := toMetric,
                    notIssuedStallReasonIndices := notIssuedSet\<rparr>)))"

definition configureSamplingPeriod ::
  "platform \<Rightarrow> ConfigureData \<Rightarrow> CUpti_PCSamplingConfigurationInfo \<times> ConfigureData" where
  "configureSamplingPeriod drv cfg = (ATTR_TYPE_SAMPLING_PERIOD (DefaultFrequency drv), cfg)"

definition configureSamplingBuffer ::
  "platform \<Rightarrow> ConfigureData \<Rightarrow> CUpti_PCSamplingConfigurationInfo \<times> ConfigureData" where
  "configureSamplingBuffer drv cfg =
     (let buf = allocPCSamplingData drv (DataBufferPCCount drv) (numValidStallReasons cfg)
      in (ATTR_TYPE_SAMPLING_DATA_BUFFER buf, cfg\<lparr>pcSamplingData := buf\<rparr>))"

definition configureScratchBuffer ::
  "platform \<Rightarrow> ConfigureData \<Rightarrow> CUpti_PCSamplingConfigurationInfo \<times> ConfigureData" where
  "configureScratchBuffer drv cfg = (ATTR_TYPE_SCRATCH_BUFFER_SIZE (ScratchBufferSize drv), cfg)"

definition configureHardwareBufferSize ::
  "platform \<Rightarrow> ConfigureData \<Rightarrow> CUpti_PCSamplingConfigurationInfo \<times> ConfigureData" where
  "configureHardwareBufferSize drv cfg =
     (ATTR_TYPE_HARDWARE_BUFFER_SIZE (HardwareBufferSize drv), cfg)"

definition configureStartStopControl ::
  "platform \<Rightarrow> ConfigureData \<Rightarrow> CUpti_PCSamplingConfigurationInfo \<times> ConfigureData" where
  "configureStartStopControl drv cfg = (ATTR_TYPE_ENABLE_START_STOP_CONTROL True, cfg)"

definition configureCollectionMode ::
  "platform \<Rightarrow> ConfigureData \<Rightarrow> CUpti_PCSamplingConfigurationInfo \<times> ConfigureData" where
  "configureCollectionMode drv cfg = (ATTR_TYPE_COLLECTION_MODE_CONTINUOUS, cfg)"

text \<open>\<^verbatim>\<open>configurationInfos.emplace_back(configure...())\<close>.\<close>

definition emplace_back ::
  "CUpti_PCSamplingConfigurationInfo \<times> ConfigureData \<Rightarrow> ConfigureData" where
  "emplace_back r = (snd r)\<lparr>configurationInfos := configurationInfos (snd r) @ [fst r]\<rparr>"

text \<open>\<^verbatim>\<open>ConfigureData::initialize\<close>.\<close>

definition ConfigureData_initialize ::
  "platform \<Rightarrow> CUcontext \<Rightarrow> ConfigureData \<Rightarrow> CuptiPCSampling \<Rightarrow>
   ConfigureData \<times> CuptiPCSampling" where
  "ConfigureData_initialize drv c cfg s =
     (let cfg = cfg\<lparr>cuContext := c, contextId := cupti_getContextId drv c\<rparr>;
          cfg = emplace_back (configureStallReasons drv cfg);
          cfg = emplace_back (configureSamplingPeriod drv cfg);
          cfg = emplace_back (configureHardwareBufferSize drv cfg);
          cfg = emplace_back (configureScratchBuffer drv cfg);
          cfg = emplace_back (configureSamplingBuffer drv cfg);
          cfg = emplace_back (configureStartStopControl drv cfg);
          cfg = emplace_back (configureCollectionMode drv cfg)
      in (cfg, setConfigurationAttribute c (configurationInfos cfg) s))"

subsection \<open>The controller (lines 307 to 339, 403 to 425)\<close>

text \<open>
  \<^verbatim>\<open>getConfigureData(id)\<close> returns \<^verbatim>\<open>&contextIdToConfigureData[id]\<close>: the entry is
  created when absent. The pointer is modelled by the entry's value; what a caller
  writes through it is stored back under the key.
\<close>

definition getConfigureData ::
  "32 word \<Rightarrow> CuptiPCSampling \<Rightarrow> ConfigureData \<times> CuptiPCSampling" where
  "getConfigureData ctxId s =
     (case subscript (contextIdToConfigureData s) ctxId default_ConfigureData of
        (cfg, m) \<Rightarrow> (cfg, s\<lparr>contextIdToConfigureData := m\<rparr>))"

definition initialize :: "platform \<Rightarrow> CUcontext \<Rightarrow> CuptiPCSampling \<Rightarrow> CuptiPCSampling" where
  "initialize drv c s =
     (let ctxId = cupti_getContextId drv c in
      if ctxId \<notin> contextInitialized s then
        (case getConfigureData ctxId (enablePCSampling c s) of
           (cfg, s1) \<Rightarrow>
             (case ConfigureData_initialize drv c cfg s1 of
                (cfg', s2) \<Rightarrow>
                  s2\<lparr>contextIdToConfigureData := (contextIdToConfigureData s2)(ctxId \<mapsto> cfg'),
                     contextInitialized := insert ctxId (contextInitialized s2)\<rparr>))
      else s)"

definition start :: "platform \<Rightarrow> CUcontext \<Rightarrow> CuptiPCSampling \<Rightarrow> CuptiPCSampling" where
  "start drv c s =
     (if \<not> pcSamplingStarted s then
        (startPCSampling c (issue ctxSynchronize (initialize drv c s)))
          \<lparr>pcSamplingStarted := True\<rparr>
      else s)"

definition finalize :: "platform \<Rightarrow> CUcontext \<Rightarrow> CuptiPCSampling \<Rightarrow> CuptiPCSampling" where
  "finalize drv c s =
     (let ctxId = cupti_getContextId drv c in
      if ctxId \<notin> contextInitialized s then s
      else
        (case getConfigureData ctxId s of
           (cfg, s1) \<Rightarrow>
             disablePCSampling c
               (s1\<lparr>contextIdToConfigureData := (contextIdToConfigureData s1)(ctxId := None),
                   contextInitialized := contextInitialized s1 - {ctxId}\<rparr>)))"

subsection \<open>Draining the buffer (lines 38 to 66, 341 to 414)\<close>

text \<open>\<^verbatim>\<open>std::runtime_error\<close> with its message.\<close>

datatype error = runtime_error string

text \<open>
  The parameter block starts with line number 0 and two null pointers; the return
  value of the driver is not checked. The result is
  \<^verbatim>\<open>(lineNumber, fileNameStr, dirNameStr)\<close>.
\<close>

definition getSassToSourceCorrelation ::
  "platform \<Rightarrow> string \<Rightarrow> 64 word \<Rightarrow> string option \<Rightarrow> nat \<Rightarrow> 32 word \<times> string \<times> string" where
  "getSassToSourceCorrelation drv fn pc img n =
     (case cupti_getSassToSourceCorrelation drv img fn n pc of
        CorrelationFailed \<Rightarrow> (0, [], [])
      | Correlated ln file dir \<Rightarrow>
          (ln, (case file of None \<Rightarrow> [] | Some f \<Rightarrow> f), (case dir of None \<Rightarrow> [] | Some d \<Rightarrow> d)))"

text \<open>
  The metric of one stall-reason slot (lines 380 to 390). The map is read at an index
  that line 368 has found present; \<^verbatim>\<open>samples\<close> and \<^verbatim>\<open>stalledSamples\<close> are 32-bit
  numbers.
\<close>

definition stall_metric :: "ConfigureData \<Rightarrow> CUpti_PCSamplingStallReason \<Rightarrow> PCSamplingMetric" where
  "stall_metric cfg sr =
     (let metricKind =
            (case stallReasonIndexToMetricIndex cfg (unat (pcSamplingStallReasonIndex sr)) of
               Some j \<Rightarrow> j | None \<Rightarrow> 0);
          n = samples sr;
          stalledSamples =
            (if unat (pcSamplingStallReasonIndex sr) \<in> notIssuedStallReasonIndices cfg
             then 0 else n)
      in PCSamplingMetric metricKind (unat n) (unat stalledSamples))"

text \<open>
  The body of the loop over the data set (lines 372 to 391) for one sink: the scope is
  the external id, or its child named by the function when the call is API-scoped, or
  the child of that named \<^verbatim>\<open>dir/file:function@line\<close> when the file name is not empty.
\<close>

definition record_metric ::
  "ConfigureData \<Rightarrow> nat \<Rightarrow> bool \<Rightarrow> LineInfoValue \<Rightarrow> CUpti_PCSamplingStallReason \<Rightarrow> Data \<Rightarrow> Data" where
  "record_metric cfg externId isAPI li sr d =
     (case (if isAPI then addScope externId (functionName li) d else (externId, d)) of
        (scopeId, d1) \<Rightarrow>
          (case (if length (fileName li) \<noteq> 0
                 then addScope scopeId
                        (dirName li @ ''/'' @ fileName li @ '':'' @ functionName li @ ''@''
                           @ to_string (unat (lineNumber li))) d1
                 else (scopeId, d1)) of
             (scopeId', d2) \<Rightarrow> addMetric scopeId' (stall_metric cfg sr) d2))"

text \<open>
  The loop over the stall-reason slots of one sample (lines 366 to 393). The result is
  the exception thrown, if any, and the data set as it is then.
\<close>

fun process_stall_reasons ::
  "ConfigureData \<Rightarrow> nat \<Rightarrow> bool \<Rightarrow> LineInfoValue \<Rightarrow> CUpti_PCSamplingStallReason list \<Rightarrow>
   Data list \<Rightarrow> error option \<times> Data list" where
  "process_stall_reasons cfg externId isAPI li [] ds = (None, ds)"
| "process_stall_reasons cfg externId isAPI li (sr # rest) ds =
     (if stallReasonIndexToMetricIndex cfg (unat (pcSamplingStallReasonIndex sr)) = None
      then (Some (runtime_error ''Invalid stall reason index''), ds)
      else process_stall_reasons cfg externId isAPI li rest
             (map (record_metric cfg externId isAPI li sr) ds))"

text \<open>
  The first part of the body of the loop over the samples (lines 353 to 365): the entry
  of the sample's checksum is looked up (and created when absent), and the line
  information of \<^verbatim>\<open>(functionIndex, pcOffset)\<close> is looked up in its cache (and queried
  from the driver and cached when absent). The result is the line information and the
  state with the registry as it is then.
\<close>

definition resolve_line_info ::
  "platform \<Rightarrow> CUpti_PCSamplingPCData \<Rightarrow> CuptiPCSampling \<Rightarrow> LineInfoValue \<times> CuptiPCSampling" where
  "resolve_line_info drv pcData s =
     (case subscript (cubinCrcToCubinData s) (pc_cubinCrc pcData) (default_CubinData, 0) of
        (e, m) \<Rightarrow>
          (let cubinData = fst e;
               key = (functionIndex pcData, pcOffset pcData)
           in case (case lineInfo cubinData key of
                      Some li \<Rightarrow> (li, cubinData)
                    | None \<Rightarrow>
                        (case getSassToSourceCorrelation drv (pc_functionName pcData)
                                (pcOffset pcData) (cubin cubinData) (cubinSize cubinData) of
                           (ln, file, dir) \<Rightarrow>
                             (let li = \<lparr>lineNumber = ln, functionName = pc_functionName pcData,
                                        dirName = dir, fileName = file\<rparr>
                              in (li, cubinData\<lparr>lineInfo := (lineInfo cubinData)(key \<mapsto> li)\<rparr>)))) of
                (li, cubinData') \<Rightarrow>
                  (li, s\<lparr>cubinCrcToCubinData := m(pc_cubinCrc pcData \<mapsto> (cubinData', snd e))\<rparr>)))"

text \<open>
  The body of the loop over the samples (lines 353 to 393) for one sample: the line
  information is resolved and the slots \<^verbatim>\<open>stallReason[0 .. stallReasonCount - 1]\<close> are
  processed.
\<close>

definition process_pc ::
  "platform \<Rightarrow> ConfigureData \<Rightarrow> nat \<Rightarrow> bool \<Rightarrow> CUpti_PCSamplingPCData \<Rightarrow> CuptiPCSampling \<Rightarrow>
   error option \<times> CuptiPCSampling" where
  "process_pc drv cfg externId isAPI pcData s =
     (case resolve_line_info drv pcData s of
        (li, s1) \<Rightarrow>
          (case process_stall_reasons cfg externId isAPI li
                  (take (stallReasonCount pcData) (stallReason pcData)) (dataSet s1) of
             (err, ds) \<Rightarrow> (err, s1\<lparr>dataSet := ds\<rparr>)))"

text \<open>The loop over the samples of the buffer (lines 352 to 394).\<close>

fun handle_data ::
  "platform \<Rightarrow> ConfigureData \<Rightarrow> nat \<Rightarrow> bool \<Rightarrow> CUpti_PCSamplingPCData list \<Rightarrow> CuptiPCSampling \<Rightarrow>
   error option \<times> CuptiPCSampling" where
  "handle_data drv cfg externId isAPI [] s = (None, s)"
| "handle_data drv cfg externId isAPI (pcData # rest) s =
     (case process_pc drv cfg externId isAPI pcData s of
        (Some e, s') \<Rightarrow> (Some e, s')
      | (None, s') \<Rightarrow> handle_data drv cfg externId isAPI rest s')"

text \<open>
  The \<^verbatim>\<open>while\<close> loop of \<^verbatim>\<open>processPCSamplingData\<close> (lines 349 to 400), entered with
  the value of \<^verbatim>\<open>firstRound\<close>. The driver may report remaining samples for ever, so the
  loop need not end: \<open>None\<close> is a run that does not return. \<open>Some (err, cfg, s)\<close> is a
  run that returns (\<open>err = None\<close>) or throws (\<open>err = Some e\<close>) with the object the
  pointer \<^verbatim>\<open>configureData\<close> refers to and the state as they are then.
\<close>

partial_function (option) drain_loop ::
  "platform \<Rightarrow> nat \<Rightarrow> bool \<Rightarrow> bool \<Rightarrow> ConfigureData \<Rightarrow> CuptiPCSampling \<Rightarrow>
   (error option \<times> ConfigureData \<times> CuptiPCSampling) option" where
  "drain_loop drv externId isAPI firstRound cfg s =
     (if totalNumPcs (pcSamplingData cfg) > 0 \<or> remainingNumPcs (pcSamplingData cfg) > 0
         \<or> firstRound then
        (case handle_data drv cfg externId isAPI
                (take (totalNumPcs (pcSamplingData cfg)) (pPcData (pcSamplingData cfg))) s of
           (Some e, s') \<Rightarrow> Some (Some e, cfg, s')
         | (None, s') \<Rightarrow>
             if remainingNumPcs (pcSamplingData cfg) > 0 \<or> firstRound then
               (case getPCSamplingData drv (cuContext cfg) (pcSamplingData cfg) s' of
                  (buf, s'') \<Rightarrow>
                    drain_loop drv externId isAPI False (cfg\<lparr>pcSamplingData := buf\<rparr>) s'')
             else Some (None, cfg, s'))
      else Some (None, cfg, s))"

declare drain_loop.simps [code]

definition processPCSamplingData ::
  "platform \<Rightarrow> ConfigureData \<Rightarrow> nat \<Rightarrow> bool \<Rightarrow> CuptiPCSampling \<Rightarrow>
   (error option \<times> ConfigureData \<times> CuptiPCSampling) option" where
  "processPCSamplingData drv cfg externId isAPI s = drain_loop drv externId isAPI True cfg s"

definition stop ::
  "platform \<Rightarrow> CUcontext \<Rightarrow> nat \<Rightarrow> bool \<Rightarrow> CuptiPCSampling \<Rightarrow>
   (error option \<times> CuptiPCSampling) option" where
  "stop drv c externId isAPI s =
     (let ctxId = cupti_getContextId drv c in
      if pcSamplingStarted s then
        (case getConfigureData ctxId s of
           (cfg, s1) \<Rightarrow>
             (case processPCSamplingData drv cfg externId isAPI
                     ((stopPCSampling c s1)\<lparr>pcSamplingStarted := False\<rparr>) of
                None \<Rightarrow> None
              | Some (err, cfg', s2) \<Rightarrow>
                  Some (err, s2\<lparr>contextIdToConfigureData :=
                                  (contextIdToConfigureData s2)(ctxId \<mapsto> cfg')\<rparr>)))
      else Some (None, s))"

subsection \<open>An invariant of the controller\<close>

text \<open>Every context id marked as initialized has an entry in \<open>contextIdToConfigureData\<close>.\<close>

definition initialized_have_data :: "CuptiPCSampling \<Rightarrow> bool" where
  "initialized_have_data s = (contextInitialized s \<subseteq> dom (contextIdToConfigureData s))"

subsection \<open>Test doubles\<close>

text \<open>The state of a freshly constructed collector with one data sink.\<close>

definition empty_Data :: Data where
  "empty_Data = \<lparr>scopes = Map.empty, nextScopeId = 1, metrics = []\<rparr>"

definition initial_state :: CuptiPCSampling where
  "initial_state =
     \<lparr>contextIdToConfigureData = Map.empty, cubinCrcToCubinData = Map.empty,
      contextInitialized = {}, pcSamplingStarted = False,
      dataSet = [empty_Data], driverCalls = []\<rparr>"

text \<open>
  A driver for three stall reasons (the third one unknown to the taxonomy) with the
  indices 7, 8 and 9, whose library is older than CUDA 12.4 while the header is not,
  that has no line information, and that delivers one sample with its first answer to
  \<^verbatim>\<open>pcSamplingGetData\<close> and nothing afterwards. The sample has two stall-reason slots:
  index 7 with 10 samples and index 8 with 5 samples.
\<close>

definition test_sample :: CUpti_PCSamplingPCData where
  "test_sample =
     \<lparr>pc_cubinCrc = 5, pcOffset = 16, functionIndex = 0, pc_functionName = ''kernel'',
      stallReasonCount = 2,
      stallReason = [\<lparr>pcSamplingStallReasonIndex = 7, samples = 10\<rparr>,
                     \<lparr>pcSamplingStallReasonIndex = 8, samples = 5\<rparr>]\<rparr>"

definition test_platform :: platform where
  "test_platform =
     \<lparr>cupti_getContextId = (\<lambda>c. of_nat c),
      cupti_getCubinCrc = (\<lambda>img n. of_nat n),
      cupti_getVersion = 21,
      cupti_pcSamplingGetNumStallReasons = (\<lambda>c. 3),
      cupti_pcSamplingGetStallReasons =
        (\<lambda>c i. case i of
                  0 \<Rightarrow> (''stall_memory_dependency'', 7)
                | Suc 0 \<Rightarrow> (''stall_not_issued'', 8)
                | Suc (Suc j) \<Rightarrow> (''stall_unknown_xyz'', 9)),
      cupti_getSassToSourceCorrelation = (\<lambda>img fn n pc. CorrelationFailed),
      cupti_pcSamplingGetData =
        (\<lambda>calls buf.
           if filter (\<lambda>call. case call of pcSamplingGetData c \<Rightarrow> True | _ \<Rightarrow> False) calls = []
           then buf\<lparr>totalNumPcs := 1, remainingNumPcs := 0,
                    pPcData := (pPcData buf)[0 := test_sample]\<rparr>
           else buf\<lparr>totalNumPcs := 0, remainingNumPcs := 0\<rparr>),
      VALUE_NAMES = [''memory_dependency'', ''not_issued''],
      CUPTI_API_VERSION = 22,
      sizeof_PCData = 64,
      DefaultFrequency = 10,
      HardwareBufferSize = 1024,
      ScratchBufferSize = 512,
      DataBufferPCCount = 2\<rparr>"

text \<open>
  The configuration that \<^verbatim>\<open>ConfigureData::initialize\<close> builds for context 1 on the test
  driver: the indices 7 and 8 are mapped to the kinds 0 (\<^verbatim>\<open>memory_dependency\<close>) and
  1 (\<^verbatim>\<open>not_issued\<close>), index 8 is in the not-issued set, index 9 is not mapped.
\<close>

definition test_cfg :: ConfigureData where
  "test_cfg = fst (ConfigureData_initialize test_platform 1 default_ConfigureData initial_state)"

text \<open>A sample whose second slot carries the unmapped index 9.\<close>

definition bad_sample :: CUpti_PCSamplingPCData where
  "bad_sample =
     test_sample\<lparr>stallReason := [\<lparr>pcSamplingStallReasonIndex = 7, samples = 10\<rparr>,
                                 \<lparr>pcSamplingStallReasonIndex = 9, samples = 3\<rparr>]\<rparr>"

text \<open>
  Three more drivers: one that delivers \<open>bad_sample\<close> with every answer, one that never
  has a sample, and one that reports one remaining PC with its first answer and
  nothing afterwards.
\<close>

definition bad_platform :: platform where
  "bad_platform =
     test_platform\<lparr>cupti_pcSamplingGetData :=
       (\<lambda>calls buf. buf\<lparr>totalNumPcs := 1, remainingNumPcs := 0,
                         pPcData := (pPcData buf)[0 := bad_sample]\<rparr>)\<rparr>"

definition quiet_platform :: platform where
  "quiet_platform =
     test_platform\<lparr>cupti_pcSamplingGetData :=
       (\<lambda>calls buf. buf\<lparr>totalNumPcs := 0, remainingNumPcs := 0\<rparr>)\<rparr>"

definition slow_platform :: platform where
  "slow_platform =
     test_platform\<lparr>cupti_pcSamplingGetData :=
       (\<lambda>calls buf.
          if filter (\<lambda>call. case call of pcSamplingGetData c \<Rightarrow> True | _ \<Rightarrow> False) calls = []
          then buf\<lparr>totalNumPcs := 0, remainingNumPcs := 1\<rparr>
          else buf\<lparr>totalNumPcs := 0, remainingNumPcs := 0\<rparr>)\<rparr>"

section \<open>Properties\<close>

subsection \<open>The module registry\<close>

text \<open>
  C1. The claim: loading the same binary N times and unloading it M \<open>\<le>\<close> N times leaves
  its registry entry present iff N > M, the first load creating the entry with count 1
  and each further load incrementing the count. The code does not do this:
  \<^verbatim>\<open>loadModule\<close> never writes the count, which \<^verbatim>\<open>unloadModule\<close> reads and decrements.
  For every binary, the first load into the initial state leaves the count at 0, a
  second load leaves the count as the first left it, and one unload after two loads
  erases the entry.
\<close>

theorem loadModule_never_counts:
  "map_option snd (cubinCrcToCubinData (loadModule drv img n initial_state)
       (getCubinCrc drv img n)) = Some 0
   \<and> map_option snd (cubinCrcToCubinData (loadModule drv img n (loadModule drv img n s))
         (getCubinCrc drv img n))
       = map_option snd (cubinCrcToCubinData (loadModule drv img n s) (getCubinCrc drv img n))
   \<and> cubinCrcToCubinData
         (unloadModule drv img n (loadModule drv img n (loadModule drv img n initial_state)))
         (getCubinCrc drv img n) = None"
  by (simp add: loadModule_def unloadModule_def subscript_def initial_state_def Let_def
      split: option.splits)

subsection \<open>Matching stall reasons\<close>

text \<open>Below \<open>2 ^ 31\<close> the conversion to \<^verbatim>\<open>int\<close> keeps the value.\<close>

lemma int_of_size_t_small: "i < 2 ^ 31 \<Longrightarrow> int_of_size_t i = int i"
  by (simp add: int_of_size_t_def signed_of_nat signed_take_bit_int_eq_self)

lemma find_metric_None_iff:
  "find_metric V j nm = None \<longleftrightarrow> (\<forall>m \<in> set V. \<not> contains nm m)"
  by (induction V arbitrary: j) auto

lemma matched_iff: "matched V nm \<longleftrightarrow> (\<exists>m \<in> set V. contains nm m)"
  by (simp add: matched_def find_metric_None_iff)

lemma match_round_eq:
  "match_round V names idxs i (tm, ni, v, c) =
     (if matched V (names ! i)
      then (tm(unat (idxs ! i) \<mapsto> the (find_metric V 0 (names ! i))),
            (if contains (names ! i) ''not_issued'' then insert (unat (idxs ! i)) ni else ni),
            v[i := True], c + 1)
      else (tm, ni, v, c))"
  by (auto simp: match_round_def matched_def Let_def split: option.splits)

text \<open>
  The first loop after \<open>k\<close> rounds: the set has gained the indices of the matched names
  that contain \<^verbatim>\<open>not_issued\<close>, the map is defined on the indices of the matched names,
  \<^verbatim>\<open>validIndex\<close> flags the matched names among the first \<open>k\<close>, and the counter counts
  them.
\<close>

lemma first_loop:
  "k \<le> n \<Longrightarrow>
   \<exists>tm'. fold (match_round V names idxs) [0..<k] (tm, ni, replicate n False, c) =
       (tm',
        ni \<union> {unat (idxs ! i) |i. i < k \<and> matched V (names ! i) \<and> contains (names ! i) ''not_issued''},
        map (\<lambda>i. i < k \<and> matched V (names ! i)) [0..<n],
        c + length (filter (\<lambda>i. matched V (names ! i)) [0..<k]))
     \<and> dom tm' = dom tm \<union> {unat (idxs ! i) |i. i < k \<and> matched V (names ! i)}"
proof (induction k)
  case 0
  have "map (\<lambda>i. False) [0..<n] = replicate n False"
    by (simp add: map_replicate_const)
  then show ?case by simp
next
  case (Suc k)
  then obtain tm' where
    f: "fold (match_round V names idxs) [0..<k] (tm, ni, replicate n False, c) =
       (tm',
        ni \<union> {unat (idxs ! i) |i. i < k \<and> matched V (names ! i) \<and> contains (names ! i) ''not_issued''},
        map (\<lambda>i. i < k \<and> matched V (names ! i)) [0..<n],
        c + length (filter (\<lambda>i. matched V (names ! i)) [0..<k]))"
    and d: "dom tm' = dom tm \<union> {unat (idxs ! i) |i. i < k \<and> matched V (names ! i)}"
    by auto
  have kn: "k < n" using Suc.prems by simp
  show ?case
  proof (cases "matched V (names ! k)")
    case True
    have v: "(map (\<lambda>i. i < k \<and> matched V (names ! i)) [0..<n])[k := True]
             = map (\<lambda>i. i < Suc k \<and> matched V (names ! i)) [0..<n]"
      using True kn
      by (intro nth_equalityI) (auto simp: nth_list_update less_Suc_eq split: if_splits)
    have s1: "{unat (idxs ! i) |i. i < Suc k \<and> matched V (names ! i)}
            = insert (unat (idxs ! k)) {unat (idxs ! i) |i. i < k \<and> matched V (names ! i)}"
      using True by (auto simp: less_Suc_eq)
    have s2: "contains (names ! k) ''not_issued'' \<Longrightarrow>
       {unat (idxs ! i) |i. i < Suc k \<and> matched V (names ! i) \<and> contains (names ! i) ''not_issued''}
       = insert (unat (idxs ! k))
          {unat (idxs ! i) |i. i < k \<and> matched V (names ! i) \<and> contains (names ! i) ''not_issued''}"
      using True by (auto simp: less_Suc_eq)
    have s3: "\<not> contains (names ! k) ''not_issued'' \<Longrightarrow>
       {unat (idxs ! i) |i. i < Suc k \<and> matched V (names ! i) \<and> contains (names ! i) ''not_issued''}
       = {unat (idxs ! i) |i. i < k \<and> matched V (names ! i) \<and> contains (names ! i) ''not_issued''}"
      by (auto simp: less_Suc_eq)
    show ?thesis
      using True f d v s1 s2 s3 by (simp add: match_round_eq del: upt_Suc add: upt_Suc_append)
  next
    case False
    have v: "map (\<lambda>i. i < k \<and> matched V (names ! i)) [0..<n]
             = map (\<lambda>i. i < Suc k \<and> matched V (names ! i)) [0..<n]"
      using False by (auto simp: less_Suc_eq)
    have s1: "{unat (idxs ! i) |i. i < Suc k \<and> matched V (names ! i)}
            = {unat (idxs ! i) |i. i < k \<and> matched V (names ! i)}"
      using False by (auto simp: less_Suc_eq)
    have s3: 
       "{unat (idxs ! i) |i. i < Suc k \<and> matched V (names ! i) \<and> contains (names ! i) ''not_issued''}
       = {unat (idxs ! i) |i. i < k \<and> matched V (names ! i) \<and> contains (names ! i) ''not_issued''}"
      using False by (auto simp: less_Suc_eq)
    show ?thesis
      using False f d s1 s3 unfolding v[symmetric] by (simp add: match_round_eq)
  qed
qed

lemma take_swap_prefix:
  "m < k \<Longrightarrow> k < length zs \<Longrightarrow>
   take (Suc m) (zs[m := zs ! k, k := zs ! m]) = take m zs @ [zs ! k]"
  by (simp add: take_Suc_conv_app_nth)

lemma mset_take_swap:
  assumes "m < k" "k < length zs"
  shows "mset (take (Suc k) (zs[m := zs ! k, k := zs ! m])) = mset (take (Suc k) zs)"
proof -
  define ys where "ys = take (Suc k) zs"
  have l: "m < length ys" "k < length ys" using assms by (simp_all add: ys_def)
  have "take (Suc k) (zs[m := zs ! k, k := zs ! m]) = ys[m := ys ! k, k := ys ! m]"
    using assms by (simp add: take_update_swap ys_def)
  moreover have "mset (ys[m := ys ! k, k := ys ! m]) = mset ys"
    by (rule mset_swap[OF l(2) l(1)])
  ultimately show ?thesis by (simp add: ys_def)
qed

text \<open>
  The invariant of the second loop after \<open>k\<close> rounds, with \<open>m = k\<close> while
  \<^verbatim>\<open>invalidIndex\<close> is \<open>-1\<close> and \<open>m = invalidIndex\<close> afterwards: the first \<open>m\<close>
  entries are the matched ones among the first \<open>k\<close> original entries, in their
  original order; the entries from \<open>m\<close> to \<open>k - 1\<close> are unmatched; the first \<open>k\<close>
  entries are a permutation of the original ones; the entries from \<open>k\<close> on are
  untouched.
\<close>

lemma second_loop:
  assumes ln: "length names = n" and li: "length idxs = n" and small: "n < 2 ^ 31"
  shows "k \<le> n \<Longrightarrow>
    (case fold swap_round [0..<k] (names, idxs, map (\<lambda>i. P (names ! i)) [0..<n], - 1) of
       (names', idxs', v', iv) \<Rightarrow>
         length names' = n \<and> length idxs' = n \<and> length v' = n
         \<and> (\<forall>i. k \<le> i \<and> i < n \<longrightarrow>
               names' ! i = names ! i \<and> idxs' ! i = idxs ! i \<and> v' ! i = P (names ! i))
         \<and> (iv = - 1 \<or> (0 \<le> iv \<and> nat iv < k))
         \<and> take (if iv = - 1 then k else nat iv) (zip names' idxs')
             = filter (\<lambda>e. P (fst e)) (take k (zip names idxs))
         \<and> (\<forall>i. (if iv = - 1 then k else nat iv) \<le> i \<and> i < k \<longrightarrow> \<not> P (names' ! i))
         \<and> mset (take k (zip names' idxs')) = mset (take k (zip names idxs)))"
proof (induction k)
  case 0
  show ?case by (simp add: ln li)
next
  case (Suc k)
  have kn: "k < n" using Suc.prems by simp
  obtain names' idxs' v' iv where
    f: "fold swap_round [0..<k] (names, idxs, map (\<lambda>i. P (names ! i)) [0..<n], - 1)
        = (names', idxs', v', iv)"
    by (metis prod_cases4)
  have ih: "length names' = n \<and> length idxs' = n \<and> length v' = n
         \<and> (\<forall>i. k \<le> i \<and> i < n \<longrightarrow>
               names' ! i = names ! i \<and> idxs' ! i = idxs ! i \<and> v' ! i = P (names ! i))
         \<and> (iv = - 1 \<or> (0 \<le> iv \<and> nat iv < k))
         \<and> take (if iv = - 1 then k else nat iv) (zip names' idxs')
             = filter (\<lambda>e. P (fst e)) (take k (zip names idxs))
         \<and> (\<forall>i. (if iv = - 1 then k else nat iv) \<le> i \<and> i < k \<longrightarrow> \<not> P (names' ! i))
         \<and> mset (take k (zip names' idxs')) = mset (take k (zip names idxs))"
    using Suc.IH kn unfolding f prod.case by simp
  have len: "length names' = n" "length idxs' = n" "length v' = n"
    and rest: "\<forall>i. k \<le> i \<and> i < n \<longrightarrow>
            names' ! i = names ! i \<and> idxs' ! i = idxs ! i \<and> v' ! i = P (names ! i)"
    and iv: "iv = - 1 \<or> (0 \<le> iv \<and> nat iv < k)"
    and pre0: "take (if iv = - 1 then k else nat iv) (zip names' idxs')
          = filter (\<lambda>e. P (fst e)) (take k (zip names idxs))"
    and bad: "\<forall>i. (if iv = - 1 then k else nat iv) \<le> i \<and> i < k \<longrightarrow> \<not> P (names' ! i)"
    and ms0: "mset (take k (zip names' idxs')) = mset (take k (zip names idxs))"
    using ih by blast+
  define zs where "zs = zip names' idxs'"
  define zs0 where "zs0 = zip names idxs"
  have pre: "take (if iv = - 1 then k else nat iv) zs = filter (\<lambda>e. P (fst e)) (take k zs0)"
    using pre0 by (simp add: zs_def zs0_def)
  have ms: "mset (take k zs) = mset (take k zs0)"
    using ms0 by (simp add: zs_def zs0_def)
  have lz: "length zs = n" "length zs0 = n" by (simp_all add: zs_def zs0_def len ln li)
  have zk: "zs ! k = zs0 ! k" "fst (zs0 ! k) = names ! k"
    using rest kn by (simp_all add: zs_def zs0_def len ln li)
  have vk: "v' ! k = P (names ! k)" "names' ! k = names ! k" using rest kn by simp_all
  have t0: "take (Suc k) zs0 = take k zs0 @ [zs0 ! k]"
    using kn lz by (simp add: take_Suc_conv_app_nth)
  have t1: "take (Suc k) zs = take k zs @ [zs ! k]"
    using kn lz by (simp add: take_Suc_conv_app_nth)
  have msS: "mset (take (Suc k) zs) = mset (take (Suc k) zs0)"
    using ms zk by (simp add: t0 t1)
  have restS: "\<forall>i. Suc k \<le> i \<and> i < n \<longrightarrow>
            names' ! i = names ! i \<and> idxs' ! i = idxs ! i \<and> v' ! i = P (names ! i)"
    using rest by simp
  have step: "fold swap_round [0..<Suc k] (names, idxs, map (\<lambda>i. P (names ! i)) [0..<n], - 1)
        = swap_round k (names', idxs', v', iv)"
    using f by simp
  have ik: "int_of_size_t k = int k" using kn small by (simp add: int_of_size_t_small)
  consider (A) "iv = - 1" "\<not> P (names ! k)" | (B) "iv = - 1" "P (names ! k)"
    | (C) "iv \<noteq> - 1" "P (names ! k)" | (D) "iv \<noteq> - 1" "\<not> P (names ! k)" by blast
  then show ?case
  proof cases
    case A
    have r: "swap_round k (names', idxs', v', iv) = (names', idxs', v', int k)"
      using A vk ik by (simp add: swap_round_def)
    have j: "(if int k = - 1 then Suc k else nat (int k)) = k" by simp
    have p0: "int k = - 1 \<or> (0 \<le> int k \<and> nat (int k) < Suc k)" by simp
    have p1: "take k zs = filter (\<lambda>e. P (fst e)) (take (Suc k) zs0)"
      using pre A zk by (simp add: t0)
    have p2: "\<forall>i. k \<le> i \<and> i < Suc k \<longrightarrow> \<not> P (names' ! i)"
      using A vk by (auto simp: less_Suc_eq)
    show ?thesis
      unfolding step r prod.case j
      by (intro conjI) (rule len restS p0 p1[unfolded zs_def zs0_def] p2 msS[unfolded zs_def zs0_def])+
  next
    case B
    have r: "swap_round k (names', idxs', v', iv) = (names', idxs', v', iv)"
      using B vk by (simp add: swap_round_def)
    have j: "(if iv = - 1 then Suc k else nat iv) = Suc k" using B by simp
    have p0: "iv = - 1 \<or> (0 \<le> iv \<and> nat iv < Suc k)" using B by simp
    have p1: "take (Suc k) zs = filter (\<lambda>e. P (fst e)) (take (Suc k) zs0)"
      using pre B zk by (simp add: t0 t1)
    have p2: "\<forall>i. Suc k \<le> i \<and> i < Suc k \<longrightarrow> \<not> P (names' ! i)"
      by auto
    show ?thesis
      unfolding step r prod.case j
      by (intro conjI) (rule len restS p0 p1[unfolded zs_def zs0_def] p2 msS[unfolded zs_def zs0_def])+
  next
    case D
    have r: "swap_round k (names', idxs', v', iv) = (names', idxs', v', iv)"
      using D vk by (simp add: swap_round_def)
    have m: "0 \<le> iv" "nat iv < k" using D iv by auto
    have j: "(if iv = - 1 then Suc k else nat iv) = nat iv" using D by simp
    have p0: "iv = - 1 \<or> (0 \<le> iv \<and> nat iv < Suc k)" using m by simp
    have p1: "take (nat iv) zs = filter (\<lambda>e. P (fst e)) (take (Suc k) zs0)"
      using pre D zk by (simp add: t0)
    have p2: "\<forall>i. nat iv \<le> i \<and> i < Suc k \<longrightarrow> \<not> P (names' ! i)"
      using D vk bad by (auto simp: less_Suc_eq)
    show ?thesis
      unfolding step r prod.case j
      by (intro conjI) (rule len restS p0 p1[unfolded zs_def zs0_def] p2 msS[unfolded zs_def zs0_def])+
  next
    case C
    define m where "m = nat iv"
    have m: "0 \<le> iv" "m < k" "iv = int m" using C iv by (auto simp: m_def)
    define names'' where "names'' = names'[m := names' ! k, k := names' ! m]"
    define idxs'' where "idxs'' = idxs'[m := idxs' ! k, k := idxs' ! m]"
    have r: "swap_round k (names', idxs', v', iv)
             = (names'', idxs'', v'[m := True], iv + 1)"
      using C vk by (simp add: swap_round_def m_def names''_def idxs''_def)
    have zs'': "zip names'' idxs'' = zs[m := zs ! k, k := zs ! m]"
      using m kn len by (simp add: names''_def idxs''_def zs_def zip_update)
    have mk: "m < k" "k < length zs" using m kn lz by simp_all
    have prem: "take m zs = filter (\<lambda>e. P (fst e)) (take k zs0)"
      using pre C by (simp add: m_def)
    have bad': "\<forall>i. m \<le> i \<and> i < k \<longrightarrow> \<not> P (names' ! i)"
      using bad C by (simp add: m_def)
    have j: "(if iv + 1 = - 1 then Suc k else nat (iv + 1)) = Suc m" using m by simp
    have p0: "iv + 1 = - 1 \<or> (0 \<le> iv + 1 \<and> nat (iv + 1) < Suc k)" using m by simp
    have p1: "take (Suc m) (zip names'' idxs'') = filter (\<lambda>e. P (fst e)) (take (Suc k) zs0)"
      using prem C zk take_swap_prefix[OF mk] by (simp add: zs'' t0)
    have p2: "\<forall>i. Suc m \<le> i \<and> i < Suc k \<longrightarrow> \<not> P (names'' ! i)"
    proof (intro allI impI)
      fix i assume i: "Suc m \<le> i \<and> i < Suc k"
      show "\<not> P (names'' ! i)"
      proof (cases "i = k")
        case True
        have "names'' ! k = names' ! m" using kn len by (simp add: names''_def)
        moreover have "\<not> P (names' ! m)" using bad' mk by simp
        ultimately show ?thesis using True by simp
      next
        case False
        then have "names'' ! i = names' ! i" using i by (simp add: names''_def)
        moreover have "\<not> P (names' ! i)" using bad' i False by simp
        ultimately show ?thesis by simp
      qed
    qed
    have p3: "mset (take (Suc k) (zip names'' idxs'')) = mset (take (Suc k) zs0)"
      using mset_take_swap[OF mk] msS by (simp add: zs'')
    have p4: "\<forall>i. Suc k \<le> i \<and> i < n \<longrightarrow>
            names'' ! i = names ! i \<and> idxs'' ! i = idxs ! i \<and> (v'[m := True]) ! i = P (names ! i)"
      using rest m by (simp add: names''_def idxs''_def)
    have p5: "length names'' = n" "length idxs'' = n" "length (v'[m := True]) = n"
      using len by (simp_all add: names''_def idxs''_def)
    show ?thesis
      unfolding step r prod.case j
      by (intro conjI) (rule p5 p4 p0 p1[unfolded zs0_def] p2 p3[unfolded zs0_def])+
  qed
qed


lemma length_filter_index:
  "length (filter (\<lambda>i. P (xs ! i)) [0..<length xs]) = length (filter P xs)"
proof -
  have "filter P xs = filter P (map ((!) xs) [0..<length xs])" by (simp add: map_nth)
  also have "\<dots> = map ((!) xs) (filter (\<lambda>i. P (xs ! i)) [0..<length xs])"
    by (simp add: filter_map comp_def)
  finally show ?thesis by simp
qed

lemma length_filter_zip_fst:
  "length xs = length ys \<Longrightarrow>
   length (filter (\<lambda>e. P (fst e)) (zip xs ys)) = length (filter P xs)"
proof -
  assume l: "length xs = length ys"
  have "map fst (filter (\<lambda>e. P (fst e)) (zip xs ys)) = filter P (map fst (zip xs ys))"
    by (simp add: filter_map comp_def)
  also have "\<dots> = filter P xs" using l by simp
  finally have "length (map fst (filter (\<lambda>e. P (fst e)) (zip xs ys))) = length (filter P xs)"
    by simp
  then show ?thesis by simp
qed

lemma mset_filter_split:
  "mset xs = mset (filter P xs) + mset (filter (\<lambda>x. \<not> P x) xs)"
  by (induction xs) auto

lemma matchStallReasonsToIndices_general:
  assumes ln: "length names = n" and li: "length idxs = n" and small: "n < 2 ^ 31"
  shows "case matchStallReasonsToIndices V n names idxs tm ni of
      (numValid, names', idxs', tm', ni') \<Rightarrow>
        numValid = length (filter (matched V) names)
        \<and> length names' = n \<and> length idxs' = n
        \<and> take numValid (zip names' idxs') = filter (\<lambda>e. matched V (fst e)) (zip names idxs)
        \<and> mset (drop numValid (zip names' idxs'))
            = mset (filter (\<lambda>e. \<not> matched V (fst e)) (zip names idxs))
        \<and> ni' = ni \<union> {unat (idxs ! i) |i. i < n \<and> matched V (names ! i)
                                          \<and> contains (names ! i) ''not_issued''}
        \<and> dom tm' = dom tm \<union> {unat (idxs ! i) |i. i < n \<and> matched V (names ! i)}"
proof -
  obtain tm' where
    f1: "fold (match_round V names idxs) [0..<n] (tm, ni, replicate n False, 0) =
       (tm',
        ni \<union> {unat (idxs ! i) |i. i < n \<and> matched V (names ! i) \<and> contains (names ! i) ''not_issued''},
        map (\<lambda>i. i < n \<and> matched V (names ! i)) [0..<n],
        0 + length (filter (\<lambda>i. matched V (names ! i)) [0..<n]))"
    and d: "dom tm' = dom tm \<union> {unat (idxs ! i) |i. i < n \<and> matched V (names ! i)}"
    using first_loop[of n n V names idxs tm ni 0] by auto
  have v: "map (\<lambda>i. i < n \<and> matched V (names ! i)) [0..<n]
           = map (\<lambda>i. matched V (names ! i)) [0..<n]"
    by simp
  have c: "length (filter (\<lambda>i. matched V (names ! i)) [0..<n]) = length (filter (matched V) names)"
    using length_filter_index[of "matched V" names] ln by simp
  obtain names' idxs' v' iv where
    f2: "fold swap_round [0..<n] (names, idxs, map (\<lambda>i. matched V (names ! i)) [0..<n], - 1)
        = (names', idxs', v', iv)"
    by (metis prod_cases4)
  have s: "length names' = n \<and> length idxs' = n \<and> length v' = n
         \<and> (\<forall>i. n \<le> i \<and> i < n \<longrightarrow>
               names' ! i = names ! i \<and> idxs' ! i = idxs ! i \<and> v' ! i = matched V (names ! i))
         \<and> (iv = - 1 \<or> (0 \<le> iv \<and> nat iv < n))
         \<and> take (if iv = - 1 then n else nat iv) (zip names' idxs')
             = filter (\<lambda>e. matched V (fst e)) (take n (zip names idxs))
         \<and> (\<forall>i. (if iv = - 1 then n else nat iv) \<le> i \<and> i < n \<longrightarrow> \<not> matched V (names' ! i))
         \<and> mset (take n (zip names' idxs')) = mset (take n (zip names idxs))"
    using second_loop[OF ln li small order_refl, where P = "matched V", unfolded f2 prod.case]
    by blast
  define m where "m = (if iv = - 1 then n else nat iv)"
  define zs where "zs = zip names' idxs'"
  define zs0 where "zs0 = zip names idxs"
  have len: "length names' = n" "length idxs' = n" using s by blast+
  have lz: "length zs = n" "length zs0 = n" by (simp_all add: zs_def zs0_def len ln li)
  have mn: "m \<le> n" using s by (auto simp: m_def)
  have tk: "take n zs = zs" "take n zs0 = zs0" using lz by simp_all
  have "take m zs = filter (\<lambda>e. matched V (fst e)) (take n zs0)"
    using s unfolding m_def zs_def zs0_def by blast
  then have pre: "take m zs = filter (\<lambda>e. matched V (fst e)) zs0"
    by (simp only: tk)
  have "mset (take n zs) = mset (take n zs0)"
    using s unfolding zs_def zs0_def by blast
  then have ms: "mset zs = mset zs0"
    by (simp only: tk)
  have "length (take m zs) = length (filter (\<lambda>e. matched V (fst e)) zs0)"
    using pre by simp
  then have m_eq: "m = length (filter (matched V) names)"
    using mn lz length_filter_zip_fst[of names idxs "matched V"] ln li
    by (simp add: zs0_def)
  have "mset (take m zs) + mset (drop m zs) = mset zs"
    by (metis append_take_drop_id mset_append)
  moreover have "mset zs0 = mset (filter (\<lambda>e. matched V (fst e)) zs0)
                   + mset (filter (\<lambda>e. \<not> matched V (fst e)) zs0)"
    by (rule mset_filter_split)
  ultimately have tail: "mset (drop m zs) = mset (filter (\<lambda>e. \<not> matched V (fst e)) zs0)"
    using pre ms by (metis add_left_cancel)
  show ?thesis
    unfolding matchStallReasonsToIndices_def f1 v prod.case f2
    using c len pre tail d m_eq by (simp add: zs_def zs0_def)
qed


lemma matchStallReasonsToIndices_example:
  assumes md: "''memory_dependency'' \<in> set V" and ni: "''not_issued'' \<in> set V"
    and unk: "\<not> matched V ''stall_unknown_xyz''"
  shows "case matchStallReasonsToIndices V 3
                [''stall_memory_dependency'', ''stall_not_issued'', ''stall_unknown_xyz'']
                [a, b, c] tm nis of
      (numValid, names', idxs', tm', nis') \<Rightarrow>
        numValid = 2
        \<and> take numValid names' = [''stall_memory_dependency'', ''stall_not_issued'']
        \<and> take numValid idxs' = [a, b]
        \<and> ''stall_unknown_xyz'' \<notin> set (take numValid names')
        \<and> unat b \<in> nis'"
proof -
  define names where "names = [''stall_memory_dependency'', ''stall_not_issued'', ''stall_unknown_xyz'']"
  obtain numValid names' idxs' tm' nis' where
    r: "matchStallReasonsToIndices V 3 names [a, b, c] tm nis = (numValid, names', idxs', tm', nis')"
    by (metis prod_cases5)
  have c1: "contains ''stall_memory_dependency'' ''memory_dependency''" by code_simp
  have c2: "contains ''stall_not_issued'' ''not_issued''" by code_simp
  have m1: "matched V ''stall_memory_dependency''" using md c1 matched_iff by blast
  have m2: "matched V ''stall_not_issued''" using ni c2 matched_iff by blast
  have l3: "length names = 3" "length [a, b, c] = 3" "(3::nat) < 2 ^ 31"
    by (simp_all add: names_def)
  note g = matchStallReasonsToIndices_general[OF l3, where V = V and tm = tm and ni = nis,
      unfolded r prod.case]
  have g1: "numValid = length (filter (matched V) names)" using g by blast
  have g2: "length names' = 3" "length idxs' = 3" using g by blast+
  have g3: "take numValid (zip names' idxs')
            = filter (\<lambda>e. matched V (fst e)) (zip names [a, b, c])" using g by blast
  have g4: "nis' = nis \<union> {unat ([a, b, c] ! i) |i. i < 3 \<and> matched V (names ! i)
                                          \<and> contains (names ! i) ''not_issued''}"
    using g by blast
  have nv: "numValid = 2" using g1 m1 m2 unk by (simp add: names_def)
  have z: "take 2 (zip names' idxs')
           = [(''stall_memory_dependency'', a), (''stall_not_issued'', b)]"
    using g3 m1 m2 unk unfolding nv by (simp add: names_def)
  have l: "length names' = length idxs'" using g2 by simp
  have "take 2 names' = map fst (take 2 (zip names' idxs'))"
    using l by (simp add: take_map[symmetric])
  then have t1: "take 2 names' = [''stall_memory_dependency'', ''stall_not_issued'']"
    by (simp add: z)
  have "take 2 idxs' = map snd (take 2 (zip names' idxs'))"
    using l by (simp add: take_map[symmetric])
  then have t2: "take 2 idxs' = [a, b]"
    by (simp add: z)
  have "unat ([a, b, c] ! 1) \<in> {unat ([a, b, c] ! i) |i. i < 3 \<and> matched V (names ! i)
                                          \<and> contains (names ! i) ''not_issued''}"
    using m2 c2 by (intro CollectI exI[of _ 1]) (simp add: names_def)
  then have t3: "unat b \<in> nis'" unfolding g4 by simp
  show ?thesis
    unfolding names_def[symmetric] r prod.case using nv t1 t2 t3 by simp
qed

text \<open>
  C2, as amended. For arrays of \<open>n < 2 ^ 31\<close> names and indices (the range of the
  \<^verbatim>\<open>int\<close> index of the swap loop), \<^verbatim>\<open>matchStallReasonsToIndices\<close> returns the number
  \<open>numValid\<close> of matched names; the first \<open>numValid\<close> positions of the two arrays hold
  the matched entries, name and index together, in their original order; the
  remaining positions hold the unmatched entries, in some order; the set gains the
  indices of the matched names that contain \<^verbatim>\<open>not_issued\<close>, and the map becomes defined
  on the indices of the matched names. In particular, for the names
  \<^verbatim>\<open>stall_memory_dependency\<close>, \<^verbatim>\<open>stall_not_issued\<close>, \<^verbatim>\<open>stall_unknown_xyz\<close> and every
  taxonomy that has the kinds \<^verbatim>\<open>memory_dependency\<close> and \<^verbatim>\<open>not_issued\<close> and no kind
  occurring in the third name, \<open>numValid\<close> is 2, the valid prefix is the first two
  entries, and the index of the \<^verbatim>\<open>not_issued\<close> entry is in the not-issued set.
\<close>

theorem matchStallReasonsToIndices_partition:
  "(length names = n \<and> length idxs = n \<and> n < 2 ^ 31 \<longrightarrow>
      (case matchStallReasonsToIndices V n names idxs tm nis of
         (numValid, names', idxs', tm', nis') \<Rightarrow>
           numValid = length (filter (matched V) names)
           \<and> length names' = n \<and> length idxs' = n
           \<and> take numValid (zip names' idxs') = filter (\<lambda>e. matched V (fst e)) (zip names idxs)
           \<and> mset (drop numValid (zip names' idxs'))
               = mset (filter (\<lambda>e. \<not> matched V (fst e)) (zip names idxs))
           \<and> nis' = nis \<union> {unat (idxs ! i) |i. i < n \<and> matched V (names ! i)
                                              \<and> contains (names ! i) ''not_issued''}
           \<and> dom tm' = dom tm \<union> {unat (idxs ! i) |i. i < n \<and> matched V (names ! i)}))
   \<and> (''memory_dependency'' \<in> set V \<and> ''not_issued'' \<in> set V
        \<and> \<not> matched V ''stall_unknown_xyz'' \<longrightarrow>
      (case matchStallReasonsToIndices V 3
                [''stall_memory_dependency'', ''stall_not_issued'', ''stall_unknown_xyz'']
                [a, b, c] tm nis of
         (numValid, names', idxs', tm', nis') \<Rightarrow>
           numValid = 2
           \<and> take numValid names' = [''stall_memory_dependency'', ''stall_not_issued'']
           \<and> take numValid idxs' = [a, b]
           \<and> ''stall_unknown_xyz'' \<notin> set (take numValid names')
           \<and> unat b \<in> nis'))"
proof (intro conjI impI)
  assume "length names = n \<and> length idxs = n \<and> n < 2 ^ 31"
  then show "case matchStallReasonsToIndices V n names idxs tm nis of
         (numValid, names', idxs', tm', nis') \<Rightarrow>
           numValid = length (filter (matched V) names)
           \<and> length names' = n \<and> length idxs' = n
           \<and> take numValid (zip names' idxs') = filter (\<lambda>e. matched V (fst e)) (zip names idxs)
           \<and> mset (drop numValid (zip names' idxs'))
               = mset (filter (\<lambda>e. \<not> matched V (fst e)) (zip names idxs))
           \<and> nis' = nis \<union> {unat (idxs ! i) |i. i < n \<and> matched V (names ! i)
                                              \<and> contains (names ! i) ''not_issued''}
           \<and> dom tm' = dom tm \<union> {unat (idxs ! i) |i. i < n \<and> matched V (names ! i)}"
    by (intro matchStallReasonsToIndices_general) simp_all
next
  assume "''memory_dependency'' \<in> set V \<and> ''not_issued'' \<in> set V
        \<and> \<not> matched V ''stall_unknown_xyz''"
  then show "case matchStallReasonsToIndices V 3
                [''stall_memory_dependency'', ''stall_not_issued'', ''stall_unknown_xyz'']
                [a, b, c] tm nis of
         (numValid, names', idxs', tm', nis') \<Rightarrow>
           numValid = 2
           \<and> take numValid names' = [''stall_memory_dependency'', ''stall_not_issued'']
           \<and> take numValid idxs' = [a, b]
           \<and> ''stall_unknown_xyz'' \<notin> set (take numValid names')
           \<and> unat b \<in> nis'"
    by (intro matchStallReasonsToIndices_example) simp_all
qed

text \<open>
  C2, witness: the example of the claim with the indices 7, 8, 9 and the taxonomy
  \<^verbatim>\<open>memory_dependency\<close>, \<^verbatim>\<open>not_issued\<close>; the not-issued set is then \<open>{8}\<close>.
\<close>

theorem matchStallReasonsToIndices_partition_witness:
  "length [''stall_memory_dependency'', ''stall_not_issued'', ''stall_unknown_xyz''] = (3::nat)
   \<and> length [7, 8, 9 :: 32 word] = (3::nat) \<and> (3::nat) < 2 ^ 31
   \<and> ''memory_dependency'' \<in> set [''memory_dependency'', ''not_issued'']
   \<and> ''not_issued'' \<in> set [''memory_dependency'', ''not_issued'']
   \<and> \<not> matched [''memory_dependency'', ''not_issued''] ''stall_unknown_xyz''
   \<and> (case matchStallReasonsToIndices [''memory_dependency'', ''not_issued''] 3
                [''stall_memory_dependency'', ''stall_not_issued'', ''stall_unknown_xyz'']
                [7, 8, 9] Map.empty {} of
         (numValid, names', idxs', tm', nis') \<Rightarrow>
           numValid = 2
           \<and> take numValid names' = [''stall_memory_dependency'', ''stall_not_issued'']
           \<and> take numValid idxs' = [7, 8]
           \<and> ''stall_unknown_xyz'' \<notin> set (take numValid names')
           \<and> unat (8 :: 32 word) \<in> nis')
   \<and> snd (snd (snd (snd (matchStallReasonsToIndices [''memory_dependency'', ''not_issued''] 3
                [''stall_memory_dependency'', ''stall_not_issued'', ''stall_unknown_xyz'']
                [7, 8, 9] Map.empty {})))) = {8}"
proof -
  have u: "\<not> matched [''memory_dependency'', ''not_issued''] ''stall_unknown_xyz''"
    by code_simp
  have s: "snd (snd (snd (snd (matchStallReasonsToIndices [''memory_dependency'', ''not_issued''] 3
                [''stall_memory_dependency'', ''stall_not_issued'', ''stall_unknown_xyz'']
                [7, 8, 9] Map.empty {})))) = {8}"
    by code_simp
  show ?thesis
    using u s matchStallReasonsToIndices_partition[where
        names = "[''stall_memory_dependency'', ''stall_not_issued'', ''stall_unknown_xyz'']"
        and n = 3 and idxs = "[7, 8, 9]" and V = "[''memory_dependency'', ''not_issued'']"
        and tm = Map.empty and nis = "{}" and a = 7 and b = 8 and c = 9]
    by simp
qed

text \<open>
  C2, counterexample to the claim as stated: the partition is not stable on the
  unmatched entries. Two unknown names followed by a matched one come out with the two
  unknown names in reverse order, where a stable partition keeps their order.
\<close>

theorem matchStallReasonsToIndices_not_stable:
  "fst (snd (matchStallReasonsToIndices [''memory_dependency'', ''not_issued''] 3
        [''stall_unknown_a'', ''stall_unknown_b'', ''stall_memory_dependency''] [1, 2, 3]
        Map.empty {}))
     = [''stall_memory_dependency'', ''stall_unknown_b'', ''stall_unknown_a'']
   \<and> filter (matched [''memory_dependency'', ''not_issued''])
         [''stall_unknown_a'', ''stall_unknown_b'', ''stall_memory_dependency'']
       @ filter (\<lambda>x. \<not> matched [''memory_dependency'', ''not_issued''] x)
         [''stall_unknown_a'', ''stall_unknown_b'', ''stall_memory_dependency'']
     = [''stall_memory_dependency'', ''stall_unknown_a'', ''stall_unknown_b'']"
  by code_simp

subsection \<open>The data buffer and the configuration of a context\<close>

lemma allocPCSamplingData_size:
  "size_bytes (allocPCSamplingData drv k nv) =
     (if cupti_getVersion drv < 22 \<and> 22 \<le> CUPTI_API_VERSION drv
      then sizeof_PCData drv - 4 else sizeof_PCData drv)"
  by (simp add: allocPCSamplingData_def Let_def CUPTI_CUDA12_4_VERSION_def
      CUPTI_CUDA12_4_PC_DATA_PADDING_SIZE_def)

lemma allocPCSamplingData_slots:
  "collectNumPcs (allocPCSamplingData drv k nv) = k
   \<and> length (pPcData (allocPCSamplingData drv k nv)) = k
   \<and> (\<forall>pc \<in> set (pPcData (allocPCSamplingData drv k nv)). length (stallReason pc) = nv)
   \<and> totalNumPcs (allocPCSamplingData drv k nv) = 0
   \<and> remainingNumPcs (allocPCSamplingData drv k nv) = 0"
  by (simp add: allocPCSamplingData_def Let_def)

text \<open>
  \<^verbatim>\<open>ConfigureData::initialize\<close> in one step: the object after the call, and the one
  driver call it issues.
\<close>

lemma ConfigureData_initialize_cfg:
  "fst (ConfigureData_initialize drv c cfg s) =
     (case matchStallReasonsToIndices (VALUE_NAMES drv) (getNumStallReasons drv c)
             (fst (getStallReasonNamesAndIndices drv c (getNumStallReasons drv c)))
             (snd (getStallReasonNamesAndIndices drv c (getNumStallReasons drv c)))
             (stallReasonIndexToMetricIndex cfg) (notIssuedStallReasonIndices cfg) of
        (numValid, names', idxs', toMetric, notIssuedSet) \<Rightarrow>
          cfg\<lparr>cuContext := c,
              contextId := cupti_getContextId drv c,
              numStallReasons := getNumStallReasons drv c,
              stallReasonNames := names',
              stallReasonIndices := idxs',
              numValidStallReasons := numValid,
              stallReasonIndexToMetricIndex := toMetric,
              notIssuedStallReasonIndices := notIssuedSet,
              pcSamplingData := allocPCSamplingData drv (DataBufferPCCount drv) numValid,
              configurationInfos := configurationInfos cfg @
                [ATTR_TYPE_STALL_REASON numValid idxs',
                 ATTR_TYPE_SAMPLING_PERIOD (DefaultFrequency drv),
                 ATTR_TYPE_HARDWARE_BUFFER_SIZE (HardwareBufferSize drv),
                 ATTR_TYPE_SCRATCH_BUFFER_SIZE (ScratchBufferSize drv),
                 ATTR_TYPE_SAMPLING_DATA_BUFFER
                   (allocPCSamplingData drv (DataBufferPCCount drv) numValid),
                 ATTR_TYPE_ENABLE_START_STOP_CONTROL True,
                 ATTR_TYPE_COLLECTION_MODE_CONTINUOUS]\<rparr>)"
  by (simp add: ConfigureData_initialize_def Let_def emplace_back_def configureStallReasons_def
     configureSamplingPeriod_def configureHardwareBufferSize_def configureScratchBuffer_def
     configureSamplingBuffer_def configureStartStopControl_def configureCollectionMode_def
     split: prod.splits)

lemma ConfigureData_initialize_state:
  "snd (ConfigureData_initialize drv c cfg s) =
     s\<lparr>driverCalls := driverCalls s @
         [pcSamplingSetConfigurationAttribute c
            (configurationInfos (fst (ConfigureData_initialize drv c cfg s)))]\<rparr>"
  by (simp add: ConfigureData_initialize_def Let_def setConfigurationAttribute_def issue_def)

text \<open>
  C9. With \<open>numValid\<close> the number that \<^verbatim>\<open>matchStallReasonsToIndices\<close> returns for the
  stall reasons of the context, \<^verbatim>\<open>ConfigureData::initialize\<close> stores \<open>numValid\<close> and
  then allocates the data buffer from it: \<^verbatim>\<open>configureSamplingBuffer\<close> allocates for
  \<^verbatim>\<open>DataBufferPCCount\<close> PCs and \<^verbatim>\<open>numValidStallReasons\<close> slots, so the buffer has
  \<^verbatim>\<open>DataBufferPCCount\<close> PC records, each with an array of \<open>numValid\<close> stall-reason
  slots. The record size stored in the buffer is
  \<^verbatim>\<open>sizeof(CUpti_PCSamplingPCData)\<close> minus 4 (the width of a \<^verbatim>\<open>uint32_t\<close>) exactly
  when the version the driver reports is below 22 and the version of the header is at
  least 22, and \<^verbatim>\<open>sizeof(CUpti_PCSamplingPCData)\<close> otherwise.
\<close>

theorem sampling_buffer_layout:
  "(case matchStallReasonsToIndices (VALUE_NAMES drv) (getNumStallReasons drv c)
             (fst (getStallReasonNamesAndIndices drv c (getNumStallReasons drv c)))
             (snd (getStallReasonNamesAndIndices drv c (getNumStallReasons drv c)))
             (stallReasonIndexToMetricIndex cfg) (notIssuedStallReasonIndices cfg) of
      (numValid, r) \<Rightarrow>
        numValidStallReasons (fst (ConfigureData_initialize drv c cfg s)) = numValid
        \<and> pcSamplingData (fst (ConfigureData_initialize drv c cfg s))
            = allocPCSamplingData drv (DataBufferPCCount drv) numValid
        \<and> pcSamplingData (snd (configureSamplingBuffer drv cfg))
            = allocPCSamplingData drv (DataBufferPCCount drv) (numValidStallReasons cfg)
        \<and> collectNumPcs (allocPCSamplingData drv (DataBufferPCCount drv) numValid)
            = DataBufferPCCount drv
        \<and> length (pPcData (allocPCSamplingData drv (DataBufferPCCount drv) numValid))
            = DataBufferPCCount drv
        \<and> (\<forall>pc \<in> set (pPcData (allocPCSamplingData drv (DataBufferPCCount drv) numValid)).
              length (stallReason pc) = numValid)
        \<and> size_bytes (allocPCSamplingData drv (DataBufferPCCount drv) numValid)
            = (if cupti_getVersion drv < 22 \<and> 22 \<le> CUPTI_API_VERSION drv
               then sizeof_PCData drv - 4 else sizeof_PCData drv)
        \<and> (size_bytes (allocPCSamplingData drv (DataBufferPCCount drv) numValid)
              = sizeof_PCData drv - 4
            \<longleftrightarrow> cupti_getVersion drv < 22 \<and> 22 \<le> CUPTI_API_VERSION drv))"
  by (simp add: ConfigureData_initialize_cfg allocPCSamplingData_size allocPCSamplingData_slots
      configureSamplingBuffer_def Let_def split: prod.splits)

text \<open>
  C9, witness: the test driver reports three stall reasons of which two are matched,
  version 21 against a header of version 22, and a record size of 64; the buffer has
  2 PC records of 2 slots each and the record size 60.
\<close>

theorem sampling_buffer_layout_witness:
  "numValidStallReasons (fst (ConfigureData_initialize test_platform 1 default_ConfigureData
      initial_state)) = 2
   \<and> map (\<lambda>pc. length (stallReason pc))
        (pPcData (pcSamplingData (fst (ConfigureData_initialize test_platform 1
           default_ConfigureData initial_state)))) = [2, 2]
   \<and> collectNumPcs (pcSamplingData (fst (ConfigureData_initialize test_platform 1
           default_ConfigureData initial_state))) = 2
   \<and> cupti_getVersion test_platform < 22 \<and> 22 \<le> CUPTI_API_VERSION test_platform
   \<and> sizeof_PCData test_platform = 64
   \<and> size_bytes (pcSamplingData (fst (ConfigureData_initialize test_platform 1
           default_ConfigureData initial_state))) = 60"
proof -
  have "fst (matchStallReasonsToIndices (VALUE_NAMES test_platform)
             (getNumStallReasons test_platform 1)
             (fst (getStallReasonNamesAndIndices test_platform 1
                (getNumStallReasons test_platform 1)))
             (snd (getStallReasonNamesAndIndices test_platform 1
                (getNumStallReasons test_platform 1)))
             (stallReasonIndexToMetricIndex default_ConfigureData)
             (notIssuedStallReasonIndices default_ConfigureData)) = 2"
    by code_simp
  then obtain r where
    e: "matchStallReasonsToIndices (VALUE_NAMES test_platform)
             (getNumStallReasons test_platform 1)
             (fst (getStallReasonNamesAndIndices test_platform 1
                (getNumStallReasons test_platform 1)))
             (snd (getStallReasonNamesAndIndices test_platform 1
                (getNumStallReasons test_platform 1)))
             (stallReasonIndexToMetricIndex default_ConfigureData)
             (notIssuedStallReasonIndices default_ConfigureData) = (2, r)"
    by (metis prod.collapse)
  have p: "cupti_getVersion test_platform < 22 \<and> 22 \<le> CUPTI_API_VERSION test_platform
     \<and> sizeof_PCData test_platform = 64 \<and> DataBufferPCCount test_platform = 2"
    by (simp add: test_platform_def)
  have m: "map (\<lambda>pc. length (stallReason pc))
        (pPcData (allocPCSamplingData test_platform 2 2)) = [2, 2]"
    by code_simp
  show ?thesis
    using sampling_buffer_layout[of test_platform 1 default_ConfigureData initial_state,
        unfolded e prod.case] p m
    by simp
qed

subsection \<open>The controller\<close>

text \<open>
  Processing samples changes the module registry and the data set only; the drain loop
  changes these and the list of driver calls.
\<close>

lemma process_pc_frame:
  "process_pc drv cfg externId isAPI pcData s = (err, s') \<Longrightarrow>
   contextIdToConfigureData s' = contextIdToConfigureData s
   \<and> contextInitialized s' = contextInitialized s
   \<and> pcSamplingStarted s' = pcSamplingStarted s
   \<and> driverCalls s' = driverCalls s"
  by (auto simp: process_pc_def resolve_line_info_def Let_def split: prod.splits option.splits)

lemma handle_data_frame:
  "handle_data drv cfg externId isAPI pcs s = (err, s') \<Longrightarrow>
   contextIdToConfigureData s' = contextIdToConfigureData s
   \<and> contextInitialized s' = contextInitialized s
   \<and> pcSamplingStarted s' = pcSamplingStarted s
   \<and> driverCalls s' = driverCalls s"
proof (induction pcs arbitrary: s)
  case Nil
  then show ?case by simp
next
  case (Cons pcData rest)
  obtain e1 s1 where p: "process_pc drv cfg externId isAPI pcData s = (e1, s1)"
    by (cases "process_pc drv cfg externId isAPI pcData s")
  note f = process_pc_frame[OF p]
  show ?case
  proof (cases e1)
    case None
    then have "handle_data drv cfg externId isAPI rest s1 = (err, s')"
      using Cons.prems p by simp
    from Cons.IH[OF this] f show ?thesis by simp
  next
    case (Some e)
    then have "s' = s1" using Cons.prems p by simp
    then show ?thesis using f by simp
  qed
qed

lemma drain_loop_frame:
  assumes "drain_loop drv externId isAPI firstRound cfg s = Some r"
  shows "contextIdToConfigureData (snd (snd r)) = contextIdToConfigureData s
   \<and> contextInitialized (snd (snd r)) = contextInitialized s
   \<and> pcSamplingStarted (snd (snd r)) = pcSamplingStarted s"
proof (rule drain_loop.raw_induct[where P = "\<lambda>drv externId isAPI firstRound cfg s r.
     contextIdToConfigureData (snd (snd r)) = contextIdToConfigureData s
   \<and> contextInitialized (snd (snd r)) = contextInitialized s
   \<and> pcSamplingStarted (snd (snd r)) = pcSamplingStarted s", OF _ assms])
  fix loop :: "platform \<Rightarrow> nat \<Rightarrow> bool \<Rightarrow> bool \<Rightarrow> ConfigureData \<Rightarrow> CuptiPCSampling \<Rightarrow>
      (error option \<times> ConfigureData \<times> CuptiPCSampling) option"
    and drv externId isAPI firstRound cfg and s :: CuptiPCSampling
    and r :: "error option \<times> ConfigureData \<times> CuptiPCSampling"
  assume ih: "\<And>drv externId isAPI firstRound cfg s r.
      loop drv externId isAPI firstRound cfg s = Some r \<Longrightarrow>
      contextIdToConfigureData (snd (snd r)) = contextIdToConfigureData s
      \<and> contextInitialized (snd (snd r)) = contextInitialized s
      \<and> pcSamplingStarted (snd (snd r)) = pcSamplingStarted s"
  assume eq0: "(if 0 < totalNumPcs (pcSamplingData cfg) \<or>
    0 < remainingNumPcs (pcSamplingData cfg) \<or> firstRound
 then case handle_data drv cfg externId isAPI
            (take (totalNumPcs (pcSamplingData cfg))
              (pPcData (pcSamplingData cfg)))
            s of
      (None, s') \<Rightarrow>
        if 0 < remainingNumPcs (pcSamplingData cfg) \<or> firstRound
        then case getPCSamplingData drv (cuContext cfg) (pcSamplingData cfg)
                   s' of
             (buf, s'') \<Rightarrow>
               loop drv externId isAPI False (cfg\<lparr>pcSamplingData := buf\<rparr>)
                s''
        else Some (None, cfg, s')
      | (Some e, s') \<Rightarrow> Some (Some e, cfg, s')
 else Some (None, cfg, s)) = Some r"
  obtain e1 s1 where h: "handle_data drv cfg externId isAPI
           (take (totalNumPcs (pcSamplingData cfg)) (pPcData (pcSamplingData cfg))) s = (e1, s1)"
    by (cases "handle_data drv cfg externId isAPI
           (take (totalNumPcs (pcSamplingData cfg)) (pPcData (pcSamplingData cfg))) s")
  note f = handle_data_frame[OF h]
  note eq = eq0[unfolded h]
  show "contextIdToConfigureData (snd (snd r)) = contextIdToConfigureData s
   \<and> contextInitialized (snd (snd r)) = contextInitialized s
   \<and> pcSamplingStarted (snd (snd r)) = pcSamplingStarted s"
  proof (cases "0 < totalNumPcs (pcSamplingData cfg) \<or> 0 < remainingNumPcs (pcSamplingData cfg)
                 \<or> firstRound")
    case False
    then have "r = (None, cfg, s)" using eq by simp
    then show ?thesis by simp
  next
    case True
    show ?thesis
    proof (cases e1)
      case (Some e)
      then have "r = (Some e, cfg, s1)" using eq True by simp
      then show ?thesis using f by simp
    next
      case None
      show ?thesis
      proof (cases "0 < remainingNumPcs (pcSamplingData cfg) \<or> firstRound")
        case False
        then have "r = (None, cfg, s1)" using eq True None by simp
        then show ?thesis using f by simp
      next
        case c: True
        have "loop drv externId isAPI False
                (cfg\<lparr>pcSamplingData :=
                   cupti_pcSamplingGetData drv (driverCalls s1) (pcSamplingData cfg)\<rparr>)
                (issue (pcSamplingGetData (cuContext cfg)) s1) = Some r"
          using eq True None c by (simp add: getPCSamplingData_def)
        from ih[OF this] f show ?thesis by (simp add: issue_def)
      qed
    qed
  qed
qed

text \<open>\<^verbatim>\<open>CuptiPCSampling::initialize\<close> in one step, by the marker of the context id.\<close>

lemma initialize_initialized:
  "cupti_getContextId drv c \<in> contextInitialized s \<Longrightarrow> initialize drv c s = s"
  by (simp add: initialize_def)

lemma ConfigureData_initialize_fst:
  "fst (ConfigureData_initialize drv c cfg s) = fst (ConfigureData_initialize drv c cfg s0)"
  by (simp add: ConfigureData_initialize_def Let_def)

lemma ConfigureData_initialize_snd:
  "snd (ConfigureData_initialize drv c cfg s) =
     s\<lparr>driverCalls := driverCalls s @
         [pcSamplingSetConfigurationAttribute c
            (configurationInfos (fst (ConfigureData_initialize drv c cfg s)))]\<rparr>"
  by (simp add: ConfigureData_initialize_def Let_def setConfigurationAttribute_def issue_def)

lemma initialize_fresh:
  assumes "cupti_getContextId drv c \<notin> contextInitialized s"
  shows "initialize drv c s =
     s\<lparr>contextIdToConfigureData :=
         (contextIdToConfigureData s)(cupti_getContextId drv c \<mapsto>
            fst (ConfigureData_initialize drv c
                   (case contextIdToConfigureData s (cupti_getContextId drv c) of
                      None \<Rightarrow> default_ConfigureData | Some cfg \<Rightarrow> cfg) s)),
       contextInitialized := insert (cupti_getContextId drv c) (contextInitialized s),
       driverCalls := driverCalls s @
         [pcSamplingEnable c,
          pcSamplingSetConfigurationAttribute c
            (configurationInfos (fst (ConfigureData_initialize drv c
                   (case contextIdToConfigureData s (cupti_getContextId drv c) of
                      None \<Rightarrow> default_ConfigureData | Some cfg \<Rightarrow> cfg) s)))]\<rparr>"
proof -
  define i where "i = cupti_getContextId drv c"
  define cfg where "cfg = (case contextIdToConfigureData s i of
                      None \<Rightarrow> default_ConfigureData | Some cfg \<Rightarrow> cfg)"
  define s1 where "s1 = s\<lparr>contextIdToConfigureData := (contextIdToConfigureData s)(i \<mapsto> cfg),
                         driverCalls := driverCalls s @ [pcSamplingEnable c]\<rparr>"
  have g: "getConfigureData i (enablePCSampling c s) = (cfg, s1)"
    by (auto simp: getConfigureData_def subscript_def enablePCSampling_def issue_def cfg_def
        s1_def map_upd_triv split: option.splits)
  have f: "fst (ConfigureData_initialize drv c cfg s1) = fst (ConfigureData_initialize drv c cfg s)"
    by (rule ConfigureData_initialize_fst)
  have "initialize drv c s =
      (snd (ConfigureData_initialize drv c cfg s1))
        \<lparr>contextIdToConfigureData :=
           (contextIdToConfigureData (snd (ConfigureData_initialize drv c cfg s1)))
             (i \<mapsto> fst (ConfigureData_initialize drv c cfg s1)),
         contextInitialized :=
           insert i (contextInitialized (snd (ConfigureData_initialize drv c cfg s1)))\<rparr>"
    using assms by (simp add: initialize_def i_def[symmetric] g case_prod_beta)
  also have "\<dots> = s\<lparr>contextIdToConfigureData :=
         (contextIdToConfigureData s)(i \<mapsto> fst (ConfigureData_initialize drv c cfg s)),
       contextInitialized := insert i (contextInitialized s),
       driverCalls := driverCalls s @
         [pcSamplingEnable c,
          pcSamplingSetConfigurationAttribute c
            (configurationInfos (fst (ConfigureData_initialize drv c cfg s)))]\<rparr>"
    unfolding ConfigureData_initialize_snd f by (simp add: s1_def)
  finally show ?thesis unfolding i_def cfg_def .
qed


lemma initialize_marks:
  "cupti_getContextId drv c \<in> contextInitialized (initialize drv c s)"
  by (cases "cupti_getContextId drv c \<in> contextInitialized s")
     (simp_all add: initialize_initialized initialize_fresh)

lemma initialize_twice: "initialize drv c (initialize drv c s) = initialize drv c s"
  by (rule initialize_initialized) (rule initialize_marks)

lemma initialize_funpow: "(initialize drv c ^^ Suc n) s = initialize drv c s"
  by (induction n) (simp_all add: initialize_twice)

lemma initialize_others:
  "i \<noteq> cupti_getContextId drv c \<Longrightarrow>
   contextIdToConfigureData (initialize drv c s) i = contextIdToConfigureData s i
   \<and> (i \<in> contextInitialized (initialize drv c s) \<longleftrightarrow> i \<in> contextInitialized s)"
  by (cases "cupti_getContextId drv c \<in> contextInitialized s")
     (simp_all add: initialize_initialized initialize_fresh)

lemma initialize_started:
  "pcSamplingStarted (initialize drv c s) = pcSamplingStarted s"
  by (cases "cupti_getContextId drv c \<in> contextInitialized s")
     (simp_all add: initialize_initialized initialize_fresh)

lemma initialize_invariant:
  "initialized_have_data s \<Longrightarrow> initialized_have_data (initialize drv c s)"
  by (cases "cupti_getContextId drv c \<in> contextInitialized s")
     (auto simp: initialize_initialized initialize_fresh initialized_have_data_def)

text \<open>\<^verbatim>\<open>start\<close>, \<^verbatim>\<open>finalize\<close> and \<^verbatim>\<open>stop\<close> in one step each.\<close>

lemma start_eq:
  "start drv c s =
     (if pcSamplingStarted s then s
      else (initialize drv c s)
             \<lparr>pcSamplingStarted := True,
              driverCalls := driverCalls (initialize drv c s) @ [ctxSynchronize, pcSamplingStart c]\<rparr>)"
  by (simp add: start_def startPCSampling_def issue_def)

lemma start_invariant:
  "initialized_have_data s \<Longrightarrow> initialized_have_data (start drv c s)"
  using initialize_invariant[of s drv c]
  by (simp add: start_eq initialized_have_data_def)

lemma finalize_eq:
  "finalize drv c s =
     (if cupti_getContextId drv c \<in> contextInitialized s
      then s\<lparr>contextIdToConfigureData :=
               (contextIdToConfigureData s)(cupti_getContextId drv c := None),
             contextInitialized := contextInitialized s - {cupti_getContextId drv c},
             driverCalls := driverCalls s @ [pcSamplingDisable c]\<rparr>
      else s)"
  by (auto simp: finalize_def getConfigureData_def subscript_def disablePCSampling_def issue_def
      Let_def split: option.splits)

lemma finalize_invariant:
  "initialized_have_data s \<Longrightarrow> initialized_have_data (finalize drv c s)"
  by (auto simp: finalize_eq initialized_have_data_def)

lemma loadModule_frame:
  "contextIdToConfigureData (loadModule drv img n s) = contextIdToConfigureData s
   \<and> contextInitialized (loadModule drv img n s) = contextInitialized s
   \<and> pcSamplingStarted (loadModule drv img n s) = pcSamplingStarted s
   \<and> driverCalls (loadModule drv img n s) = driverCalls s"
  by (simp add: loadModule_def Let_def split: prod.splits)

lemma unloadModule_frame:
  "contextIdToConfigureData (unloadModule drv img n s) = contextIdToConfigureData s
   \<and> contextInitialized (unloadModule drv img n s) = contextInitialized s
   \<and> pcSamplingStarted (unloadModule drv img n s) = pcSamplingStarted s
   \<and> driverCalls (unloadModule drv img n s) = driverCalls s"
  by (simp add: unloadModule_def Let_def split: prod.splits)

lemma stop_stopped:
  "\<not> pcSamplingStarted s \<Longrightarrow> stop drv c externId isAPI s = Some (None, s)"
  by (simp add: stop_def)

lemma stop_frame:
  assumes "stop drv c externId isAPI s = Some (r, s')"
  shows "\<not> pcSamplingStarted s'
    \<and> contextInitialized s' = contextInitialized s
    \<and> (\<forall>i. i \<noteq> cupti_getContextId drv c \<longrightarrow>
          contextIdToConfigureData s' i = contextIdToConfigureData s i)
    \<and> dom (contextIdToConfigureData s) \<subseteq> dom (contextIdToConfigureData s')
    \<and> (pcSamplingStarted s \<or> s' = s)"
proof (cases "pcSamplingStarted s")
  case False
  then show ?thesis using assms by (simp add: stop_stopped)
next
  case True
  define i where "i = cupti_getContextId drv c"
  obtain cfg s1 where g: "getConfigureData i s = (cfg, s1)"
    by (cases "getConfigureData i s")
  have s1: "contextInitialized s1 = contextInitialized s"
    "\<forall>j. j \<noteq> i \<longrightarrow> contextIdToConfigureData s1 j = contextIdToConfigureData s j"
    using g by (auto simp: getConfigureData_def subscript_def split: option.splits)
  obtain err cfg' s2 where
    d: "drain_loop drv externId isAPI True cfg
          ((stopPCSampling c s1)\<lparr>pcSamplingStarted := False\<rparr>) = Some (err, cfg', s2)"
    and s': "s' = s2\<lparr>contextIdToConfigureData := (contextIdToConfigureData s2)(i \<mapsto> cfg')\<rparr>"
    using assms True
    by (auto simp: stop_def i_def[symmetric] g processPCSamplingData_def
        split: option.splits)
  have s2: "contextIdToConfigureData s2 = contextIdToConfigureData s1"
    "contextInitialized s2 = contextInitialized s1" "\<not> pcSamplingStarted s2"
    using drain_loop_frame[OF d] by (simp_all add: stopPCSampling_def issue_def)
  have "dom (contextIdToConfigureData s) \<subseteq> dom (contextIdToConfigureData s')"
  proof
    fix j assume j: "j \<in> dom (contextIdToConfigureData s)"
    show "j \<in> dom (contextIdToConfigureData s')"
    proof (cases "j = i")
      case True
      then show ?thesis by (simp add: s')
    next
      case False
      then show ?thesis using j s1(2) by (simp add: s' s2(1) domIff)
    qed
  qed
  then show ?thesis
    using s1 s2 True by (simp add: s' i_def[symmetric])
qed

lemma stop_invariant:
  "initialized_have_data s \<Longrightarrow> stop drv c externId isAPI s = Some (r, s') \<Longrightarrow>
   initialized_have_data s'"
  using stop_frame[of drv c externId isAPI s r s']
  unfolding initialized_have_data_def
  by blast


text \<open>
  C7. In a state where every initialized context id has its \<^verbatim>\<open>ConfigureData\<close> (true
  of the initial state and kept by every operation: \<open>initialize_invariant\<close>,
  \<open>start_invariant\<close>, \<open>stop_invariant\<close>, \<open>finalize_invariant\<close>, and the module
  operations do not touch the two containers), any number \<open>n + 1\<close> of consecutive
  \<^verbatim>\<open>initialize\<close> calls for a context leaves the state that one call leaves. After it
  the context id is marked and the map holds exactly one \<^verbatim>\<open>ConfigureData\<close> for it (the
  map is a function of the id, so there is never more than one); the entries of all
  other ids are as before. On an initialized context the call changes nothing; on any
  other it issues exactly one \<^verbatim>\<open>pcSamplingEnable\<close> and one
  \<^verbatim>\<open>pcSamplingSetConfigurationAttribute\<close> for the context, however often it is
  repeated, and the entry is the result of one run of \<^verbatim>\<open>ConfigureData::initialize\<close>.
\<close>

theorem initialize_once:
  "initialized_have_data s \<longrightarrow>
     (initialize drv c ^^ Suc n) s = initialize drv c s
   \<and> initialized_have_data (initialize drv c s)
   \<and> cupti_getContextId drv c \<in> contextInitialized (initialize drv c s)
   \<and> (\<exists>!cfg. contextIdToConfigureData (initialize drv c s) (cupti_getContextId drv c)
                = Some cfg)
   \<and> (\<forall>i. i \<noteq> cupti_getContextId drv c \<longrightarrow>
          contextIdToConfigureData (initialize drv c s) i = contextIdToConfigureData s i)
   \<and> (cupti_getContextId drv c \<in> contextInitialized s \<longrightarrow> initialize drv c s = s)
   \<and> (cupti_getContextId drv c \<notin> contextInitialized s \<longrightarrow>
        contextIdToConfigureData (initialize drv c s) (cupti_getContextId drv c)
          = Some (fst (ConfigureData_initialize drv c
                   (case contextIdToConfigureData s (cupti_getContextId drv c) of
                      None \<Rightarrow> default_ConfigureData | Some cfg \<Rightarrow> cfg) s))
        \<and> driverCalls ((initialize drv c ^^ Suc n) s)
          = driverCalls s @
              [pcSamplingEnable c,
               pcSamplingSetConfigurationAttribute c
                 (configurationInfos (fst (ConfigureData_initialize drv c
                   (case contextIdToConfigureData s (cupti_getContextId drv c) of
                      None \<Rightarrow> default_ConfigureData | Some cfg \<Rightarrow> cfg) s)))])"
proof (intro impI conjI)
  assume inv: "initialized_have_data s"
  show "(initialize drv c ^^ Suc n) s = initialize drv c s" by (rule initialize_funpow)
  show "initialized_have_data (initialize drv c s)" using inv by (rule initialize_invariant)
  show m: "cupti_getContextId drv c \<in> contextInitialized (initialize drv c s)"
    by (rule initialize_marks)
  have "contextIdToConfigureData (initialize drv c s) (cupti_getContextId drv c) \<noteq> None"
    using initialize_invariant[OF inv, of drv c] m
    unfolding initialized_have_data_def by blast
  then show "\<exists>!cfg. contextIdToConfigureData (initialize drv c s) (cupti_getContextId drv c)
                = Some cfg"
    by auto
  show "\<forall>i. i \<noteq> cupti_getContextId drv c \<longrightarrow>
          contextIdToConfigureData (initialize drv c s) i = contextIdToConfigureData s i"
    using initialize_others by blast
next
  assume "cupti_getContextId drv c \<in> contextInitialized s"
  then show "initialize drv c s = s" by (rule initialize_initialized)
next
  assume f: "cupti_getContextId drv c \<notin> contextInitialized s"
  show "contextIdToConfigureData (initialize drv c s) (cupti_getContextId drv c)
          = Some (fst (ConfigureData_initialize drv c
                   (case contextIdToConfigureData s (cupti_getContextId drv c) of
                      None \<Rightarrow> default_ConfigureData | Some cfg \<Rightarrow> cfg) s))"
    by (simp add: initialize_fresh[OF f])
  show "driverCalls ((initialize drv c ^^ Suc n) s)
          = driverCalls s @
              [pcSamplingEnable c,
               pcSamplingSetConfigurationAttribute c
                 (configurationInfos (fst (ConfigureData_initialize drv c
                   (case contextIdToConfigureData s (cupti_getContextId drv c) of
                      None \<Rightarrow> default_ConfigureData | Some cfg \<Rightarrow> cfg) s)))]"
    unfolding initialize_funpow by (simp add: initialize_fresh[OF f])
qed

text \<open>
  C7, witness: three \<^verbatim>\<open>initialize\<close> calls for context 1 from the initial state.
  (The configuration list of the driver call is left out of the comparison.)
\<close>

theorem initialize_once_witness:
  "initialized_have_data initial_state
   \<and> cupti_getContextId test_platform 1 \<notin> contextInitialized initial_state
   \<and> (initialize test_platform 1 ^^ Suc 2) initial_state = initialize test_platform 1 initial_state
   \<and> (\<exists>!cfg. contextIdToConfigureData (initialize test_platform 1 initial_state)
                 (cupti_getContextId test_platform 1) = Some cfg)
   \<and> contextInitialized (initialize test_platform 1 initial_state) = {1}
   \<and> map (\<lambda>call. case call of pcSamplingSetConfigurationAttribute k infos \<Rightarrow>
                       pcSamplingSetConfigurationAttribute k [] | _ \<Rightarrow> call)
        (driverCalls ((initialize test_platform 1 ^^ Suc 2) initial_state))
       = [pcSamplingEnable 1, pcSamplingSetConfigurationAttribute 1 []]"
proof -
  have i: "initialized_have_data initial_state"
    by (simp add: initialized_have_data_def initial_state_def)
  have f: "cupti_getContextId test_platform 1 \<notin> contextInitialized initial_state"
    by (simp add: initial_state_def)
  note w = initialize_once[where s = initial_state and drv = test_platform and c = 1 and n = 2]
  have w1: "(initialize test_platform 1 ^^ Suc 2) initial_state
            = initialize test_platform 1 initial_state"
    using w i by blast
  have w2: "\<exists>!cfg. contextIdToConfigureData (initialize test_platform 1 initial_state)
                 (cupti_getContextId test_platform 1) = Some cfg"
    using w i by blast
  have m: "contextInitialized (initialize test_platform 1 initial_state) = {1}"
    by code_simp
  have t: "map (\<lambda>call. case call of pcSamplingSetConfigurationAttribute k infos \<Rightarrow>
                       pcSamplingSetConfigurationAttribute k [] | _ \<Rightarrow> call)
        (driverCalls (initialize test_platform 1 initial_state))
       = [pcSamplingEnable 1, pcSamplingSetConfigurationAttribute 1 []]"
    by code_simp
  show ?thesis
    unfolding w1 using i f w2 m t by blast
qed

text \<open>
  C6. In every state, \<^verbatim>\<open>start\<close> while \<^verbatim>\<open>pcSamplingStarted\<close> is true returns the state
  unchanged, and \<^verbatim>\<open>stop\<close> while it is false returns the state unchanged without an
  error. Hence a \<^verbatim>\<open>start\<close> right after a \<^verbatim>\<open>start\<close> (for any two contexts) changes
  nothing: the two calls issue the driver calls of the first alone, which end with one
  synchronisation and one \<^verbatim>\<open>pcSamplingStart\<close>. And a \<^verbatim>\<open>stop\<close> right after a \<^verbatim>\<open>stop\<close>
  that returned or threw changes nothing: no driver call is issued (no second
  \<^verbatim>\<open>pcSamplingStop\<close>, no \<^verbatim>\<open>pcSamplingGetData\<close>) and the data set is untouched.
\<close>

theorem start_stop_noop:
  "(pcSamplingStarted s \<longrightarrow> start drv c s = s)
   \<and> (\<not> pcSamplingStarted s \<longrightarrow> stop drv c externId isAPI s = Some (None, s))
   \<and> start drv c' (start drv c s) = start drv c s
   \<and> (stop drv c externId isAPI s = Some (r, s') \<longrightarrow>
        stop drv c' externId' isAPI' s' = Some (None, s'))
   \<and> (\<not> pcSamplingStarted s \<longrightarrow>
        pcSamplingStarted (start drv c s)
        \<and> driverCalls (start drv c' (start drv c s))
            = driverCalls (initialize drv c s) @ [ctxSynchronize, pcSamplingStart c])
   \<and> (pcSamplingStarted s \<and> stop drv c externId isAPI s = Some (r, s') \<longrightarrow>
        \<not> pcSamplingStarted s'
        \<and> driverCalls (snd (the (stop drv c' externId' isAPI' s'))) = driverCalls s'
        \<and> dataSet (snd (the (stop drv c' externId' isAPI' s'))) = dataSet s')"
proof (intro conjI impI)
  show "start drv c' (start drv c s) = start drv c s"
    by (simp add: start_eq)
  assume "stop drv c externId isAPI s = Some (r, s')"
  then show "stop drv c' externId' isAPI' s' = Some (None, s')"
    using stop_frame stop_stopped by blast
next
  assume "pcSamplingStarted s \<and> stop drv c externId isAPI s = Some (r, s')"
  then have n: "\<not> pcSamplingStarted s'" using stop_frame by blast
  then show "\<not> pcSamplingStarted s'" .
  show "driverCalls (snd (the (stop drv c' externId' isAPI' s'))) = driverCalls s'"
    by (simp add: stop_stopped[OF n])
  show "dataSet (snd (the (stop drv c' externId' isAPI' s'))) = dataSet s'"
    by (simp add: stop_stopped[OF n])
qed (simp_all add: start_eq stop_stopped)

text \<open>
  C10. \<^verbatim>\<open>finalize\<close> on an initialized context erases the \<^verbatim>\<open>ConfigureData\<close> entry and
  the marker of its context id, issues \<^verbatim>\<open>pcSamplingDisable\<close> for the context and
  changes nothing else: \<^verbatim>\<open>pcSamplingStarted\<close> and the entries and markers of all other
  context ids are as before. On a context that is not initialized it changes nothing.
  No operation but \<^verbatim>\<open>stop\<close> clears \<^verbatim>\<open>pcSamplingStarted\<close>: \<^verbatim>\<open>initialize\<close>, \<^verbatim>\<open>start\<close>,
  \<^verbatim>\<open>finalize\<close>, \<^verbatim>\<open>loadModule\<close> and \<^verbatim>\<open>unloadModule\<close> keep a true flag true, and a
  \<^verbatim>\<open>stop\<close> that returns or throws leaves it false.
\<close>

theorem finalize_frame:
  "(cupti_getContextId drv c \<in> contextInitialized s \<longrightarrow>
      finalize drv c s =
        s\<lparr>contextIdToConfigureData :=
            (contextIdToConfigureData s)(cupti_getContextId drv c := None),
          contextInitialized := contextInitialized s - {cupti_getContextId drv c},
          driverCalls := driverCalls s @ [pcSamplingDisable c]\<rparr>)
   \<and> (cupti_getContextId drv c \<notin> contextInitialized s \<longrightarrow> finalize drv c s = s)
   \<and> pcSamplingStarted (finalize drv c s) = pcSamplingStarted s
   \<and> (\<forall>i. i \<noteq> cupti_getContextId drv c \<longrightarrow>
          contextIdToConfigureData (finalize drv c s) i = contextIdToConfigureData s i
          \<and> (i \<in> contextInitialized (finalize drv c s) \<longleftrightarrow> i \<in> contextInitialized s))
   \<and> (pcSamplingStarted s \<longrightarrow>
          pcSamplingStarted (initialize drv c' s) \<and> pcSamplingStarted (start drv c' s)
          \<and> pcSamplingStarted (loadModule drv img n s)
          \<and> pcSamplingStarted (unloadModule drv img n s))
   \<and> (stop drv c' externId isAPI s = Some (r, s') \<longrightarrow> \<not> pcSamplingStarted s')"
proof (intro conjI impI allI)
  assume "stop drv c' externId isAPI s = Some (r, s')"
  then show "\<not> pcSamplingStarted s'" using stop_frame by blast
qed (simp_all add: finalize_eq initialize_started start_eq loadModule_frame unloadModule_frame)


text \<open>
  C6, witness: from the initial state, two \<^verbatim>\<open>start\<close> calls issue one
  \<^verbatim>\<open>pcSamplingStart\<close>; two \<^verbatim>\<open>stop\<close> calls after them issue one \<^verbatim>\<open>pcSamplingStop\<close> and
  one \<^verbatim>\<open>pcSamplingGetData\<close>.
\<close>

theorem start_stop_noop_witness:
  "\<not> pcSamplingStarted initial_state
   \<and> pcSamplingStarted (start test_platform 1 initial_state)
   \<and> start test_platform 1 (start test_platform 1 initial_state)
       = start test_platform 1 initial_state
   \<and> map (\<lambda>call. case call of pcSamplingSetConfigurationAttribute k infos \<Rightarrow>
                       pcSamplingSetConfigurationAttribute k [] | _ \<Rightarrow> call)
        (driverCalls (start test_platform 1 (start test_platform 1 initial_state)))
       = [pcSamplingEnable 1, pcSamplingSetConfigurationAttribute 1 [], ctxSynchronize,
          pcSamplingStart 1]
   \<and> (case stop test_platform 1 100 True (start test_platform 1 initial_state) of
         None \<Rightarrow> False
       | Some (r, s') \<Rightarrow> stop test_platform 1 100 True s' = Some (None, s'))
   \<and> map_option (\<lambda>(r, s'). map (\<lambda>call. case call of
                       pcSamplingSetConfigurationAttribute k infos \<Rightarrow>
                         pcSamplingSetConfigurationAttribute k [] | _ \<Rightarrow> call)
                     (driverCalls (snd (the (stop test_platform 1 100 True s')))))
        (stop test_platform 1 100 True (start test_platform 1 initial_state))
       = Some [pcSamplingEnable 1, pcSamplingSetConfigurationAttribute 1 [], ctxSynchronize,
               pcSamplingStart 1, pcSamplingStop 1, pcSamplingGetData 1]"
proof -
  have a: "\<not> pcSamplingStarted initial_state" by (simp add: initial_state_def)
  have b: "pcSamplingStarted (start test_platform 1 initial_state)" by code_simp
  have "map_option fst (stop test_platform 1 100 True (start test_platform 1 initial_state))
        = Some None"
    by code_simp
  then obtain r s' where
    st: "stop test_platform 1 100 True (start test_platform 1 initial_state) = Some (r, s')"
    by auto
  note w = start_stop_noop[where s = "start test_platform 1 initial_state"
      and drv = test_platform and c = 1 and c' = 1 and externId = 100 and isAPI = True
      and externId' = 100 and isAPI' = True and r = r and s' = s']
  note v = start_stop_noop[where s = initial_state
      and drv = test_platform and c = 1 and c' = 1]
  have c: "start test_platform 1 (start test_platform 1 initial_state)
       = start test_platform 1 initial_state"
    using v by blast
  have d: "stop test_platform 1 100 True s' = Some (None, s')"
    using w st by blast
  have e: "map (\<lambda>call. case call of pcSamplingSetConfigurationAttribute k infos \<Rightarrow>
                       pcSamplingSetConfigurationAttribute k [] | _ \<Rightarrow> call)
        (driverCalls (start test_platform 1 initial_state))
       = [pcSamplingEnable 1, pcSamplingSetConfigurationAttribute 1 [], ctxSynchronize,
          pcSamplingStart 1]"
    by code_simp
  have g: "map_option (\<lambda>(r, s'). map (\<lambda>call. case call of
                       pcSamplingSetConfigurationAttribute k infos \<Rightarrow>
                         pcSamplingSetConfigurationAttribute k [] | _ \<Rightarrow> call)
                     (driverCalls (snd (the (stop test_platform 1 100 True s')))))
        (stop test_platform 1 100 True (start test_platform 1 initial_state))
       = Some [pcSamplingEnable 1, pcSamplingSetConfigurationAttribute 1 [], ctxSynchronize,
               pcSamplingStart 1, pcSamplingStop 1, pcSamplingGetData 1]"
    by code_simp
  have h: "(case stop test_platform 1 100 True (start test_platform 1 initial_state) of
         None \<Rightarrow> False
       | Some (r, s') \<Rightarrow> stop test_platform 1 100 True s' = Some (None, s'))"
    unfolding st option.case prod.case by (rule d)
  show ?thesis
    unfolding c using a b e g h by blast
qed

text \<open>
  C10, witness: with sampling started on context 1 and context 2 initialized as well,
  \<^verbatim>\<open>finalize\<close> of context 1 leaves the marker and the entry of context 2 and the
  started flag; \<^verbatim>\<open>stop\<close> clears the flag.
\<close>

theorem finalize_frame_witness:
  "cupti_getContextId test_platform 1
     \<in> contextInitialized (initialize test_platform 2 (start test_platform 1 initial_state))
   \<and> contextInitialized (initialize test_platform 2 (start test_platform 1 initial_state))
       = {1, 2}
   \<and> contextInitialized
        (finalize test_platform 1 (initialize test_platform 2 (start test_platform 1 initial_state)))
       = {2}
   \<and> contextIdToConfigureData
        (finalize test_platform 1 (initialize test_platform 2 (start test_platform 1 initial_state)))
        1 = None
   \<and> map_option contextId (contextIdToConfigureData
        (finalize test_platform 1 (initialize test_platform 2 (start test_platform 1 initial_state)))
        2) = Some 2
   \<and> pcSamplingStarted
        (finalize test_platform 1 (initialize test_platform 2 (start test_platform 1 initial_state)))
   \<and> last (driverCalls
        (finalize test_platform 1 (initialize test_platform 2 (start test_platform 1 initial_state))))
       = pcSamplingDisable 1
   \<and> map_option (\<lambda>(r, s'). pcSamplingStarted s')
        (stop test_platform 1 100 True
           (initialize test_platform 2 (start test_platform 1 initial_state))) = Some False"
proof -
  define S where "S = initialize test_platform 2 (start test_platform 1 initial_state)"
  have a: "cupti_getContextId test_platform 1 \<in> contextInitialized S"
    unfolding S_def by code_simp
  have b: "contextInitialized S = {1, 2}" unfolding S_def by code_simp
  have c: "pcSamplingStarted S" unfolding S_def by code_simp
  have i: "cupti_getContextId test_platform 1 = 1" by code_simp
  note w = finalize_frame[where s = S and drv = test_platform and c = 1]
  have e: "finalize test_platform 1 S =
        S\<lparr>contextIdToConfigureData :=
            (contextIdToConfigureData S)(cupti_getContextId test_platform 1 := None),
          contextInitialized := contextInitialized S - {cupti_getContextId test_platform 1},
          driverCalls := driverCalls S @ [pcSamplingDisable 1]\<rparr>"
    using w a by blast
  have d: "map_option contextId (contextIdToConfigureData S 2) = Some 2"
    unfolding S_def by code_simp
  have f: "map_option (\<lambda>(r, s'). pcSamplingStarted s') (stop test_platform 1 100 True S)
           = Some False"
    unfolding S_def by code_simp
  have g: "contextInitialized (finalize test_platform 1 S) = {2}"
    unfolding e i b by auto
  have h: "contextIdToConfigureData (finalize test_platform 1 S) 1 = None"
    "map_option contextId (contextIdToConfigureData (finalize test_platform 1 S) 2) = Some 2"
    "pcSamplingStarted (finalize test_platform 1 S)"
    "last (driverCalls (finalize test_platform 1 S)) = pcSamplingDisable 1"
    unfolding e i using c d by simp_all
  show ?thesis
    unfolding S_def[symmetric] using a b f g h by blast
qed

subsection \<open>Draining the buffer\<close>

text \<open>What the modelled sink does on \<^verbatim>\<open>addScope\<close>, and the metric of a mapped slot.\<close>

lemma addScope_metrics: "metrics (snd (addScope p name d)) = metrics d"
  by (simp add: addScope_def split: option.splits)

lemma addScope_again:
  "addScope p name (snd (addScope p name d)) = (fst (addScope p name d), snd (addScope p name d))"
  by (simp add: addScope_def split: option.splits)

lemma addScope_scopes:
  "scopes (snd (addScope p name d)) (p, name) = Some (fst (addScope p name d))
   \<and> (\<forall>k. k \<noteq> (p, name) \<longrightarrow> scopes (snd (addScope p name d)) k = scopes d k)"
  by (simp add: addScope_def split: option.splits)

lemma stall_metric_mapped:
  "stallReasonIndexToMetricIndex cfg (unat (pcSamplingStallReasonIndex sr)) = Some k \<Longrightarrow>
   stall_metric cfg sr =
     PCSamplingMetric k (unat (samples sr))
       (if unat (pcSamplingStallReasonIndex sr) \<in> notIssuedStallReasonIndices cfg
        then 0 else unat (samples sr))"
  by (simp add: stall_metric_def Let_def)

lemma record_metric_metrics:
  "\<exists>scopeId. metrics (record_metric cfg externId isAPI li sr d)
      = metrics d @ [(scopeId, stall_metric cfg sr)]"
  by (auto simp: record_metric_def addMetric_def addScope_metrics split: prod.splits
      simp del: length_0_conv)
    (metis addScope_metrics snd_conv)+

lemma record_metric_no_file:
  "fileName li = [] \<Longrightarrow>
   record_metric cfg externId isAPI li sr d =
     (if isAPI
      then addMetric (fst (addScope externId (functionName li) d)) (stall_metric cfg sr)
             (snd (addScope externId (functionName li) d))
      else addMetric externId (stall_metric cfg sr) d)"
  by (simp add: record_metric_def split: prod.splits)

text \<open>
  The loop over the slots: when every index is mapped, each sink receives the metrics of
  the slots in order; when some index is not mapped, the loop throws.
\<close>

lemma process_stall_reasons_mapped:
  "\<forall>sr \<in> set srs. stallReasonIndexToMetricIndex cfg (unat (pcSamplingStallReasonIndex sr)) \<noteq> None
   \<Longrightarrow> process_stall_reasons cfg externId isAPI li srs ds
       = (None, map (fold (record_metric cfg externId isAPI li) srs) ds)"
  by (induction srs arbitrary: ds) (simp_all add: comp_def)

lemma process_stall_reasons_unmapped:
  "\<exists>sr \<in> set srs. stallReasonIndexToMetricIndex cfg (unat (pcSamplingStallReasonIndex sr)) = None
   \<Longrightarrow> fst (process_stall_reasons cfg externId isAPI li srs ds)
       = Some (runtime_error ''Invalid stall reason index'')"
  by (induction srs arbitrary: ds) auto

lemma fold_record_metric_metrics:
  "map snd (metrics (fold (record_metric cfg externId isAPI li) srs d))
     = map snd (metrics d) @ map (stall_metric cfg) srs"
proof (induction srs arbitrary: d)
  case Nil
  show ?case by simp
next
  case (Cons sr srs)
  obtain scopeId where "metrics (record_metric cfg externId isAPI li sr d)
      = metrics d @ [(scopeId, stall_metric cfg sr)]"
    using record_metric_metrics by blast
  then show ?case by (simp add: Cons.IH)
qed


text \<open>The same for one sample and for the samples of a buffer.\<close>

lemma resolve_line_info_frame:
  "dataSet (snd (resolve_line_info drv pcData s)) = dataSet s
   \<and> driverCalls (snd (resolve_line_info drv pcData s)) = driverCalls s"
  by (auto simp: resolve_line_info_def Let_def split: prod.splits option.splits)

lemma process_pc_dataSet:
  "\<exists>li. fst (process_pc drv cfg externId isAPI pcData s)
          = fst (process_stall_reasons cfg externId isAPI li
                   (take (stallReasonCount pcData) (stallReason pcData)) (dataSet s))
      \<and> dataSet (snd (process_pc drv cfg externId isAPI pcData s))
          = snd (process_stall_reasons cfg externId isAPI li
                   (take (stallReasonCount pcData) (stallReason pcData)) (dataSet s))"
proof -
  obtain li s1 where r: "resolve_line_info drv pcData s = (li, s1)"
    by (cases "resolve_line_info drv pcData s")
  have "dataSet s1 = dataSet s" using resolve_line_info_frame[of drv pcData s] r by simp
  then show ?thesis
    by (intro exI[of _ li]) (simp add: process_pc_def r split: prod.splits)
qed

lemma process_pc_mapped:
  assumes "\<forall>sr \<in> set (take (stallReasonCount pcData) (stallReason pcData)).
             stallReasonIndexToMetricIndex cfg (unat (pcSamplingStallReasonIndex sr)) \<noteq> None"
  shows "fst (process_pc drv cfg externId isAPI pcData s) = None
     \<and> map (\<lambda>d. map snd (metrics d)) (dataSet (snd (process_pc drv cfg externId isAPI pcData s)))
         = map (\<lambda>d. map snd (metrics d)
                      @ map (stall_metric cfg) (take (stallReasonCount pcData) (stallReason pcData)))
             (dataSet s)"
proof -
  obtain li where
    "fst (process_pc drv cfg externId isAPI pcData s)
          = fst (process_stall_reasons cfg externId isAPI li
                   (take (stallReasonCount pcData) (stallReason pcData)) (dataSet s))"
    "dataSet (snd (process_pc drv cfg externId isAPI pcData s))
          = snd (process_stall_reasons cfg externId isAPI li
                   (take (stallReasonCount pcData) (stallReason pcData)) (dataSet s))"
    using process_pc_dataSet by blast
  then show ?thesis
    by (simp add: process_stall_reasons_mapped[OF assms] fold_record_metric_metrics comp_def)
qed

lemma process_pc_unmapped:
  assumes "\<exists>sr \<in> set (take (stallReasonCount pcData) (stallReason pcData)).
             stallReasonIndexToMetricIndex cfg (unat (pcSamplingStallReasonIndex sr)) = None"
  shows "fst (process_pc drv cfg externId isAPI pcData s)
           = Some (runtime_error ''Invalid stall reason index'')"
proof -
  obtain li where
    "fst (process_pc drv cfg externId isAPI pcData s)
          = fst (process_stall_reasons cfg externId isAPI li
                   (take (stallReasonCount pcData) (stallReason pcData)) (dataSet s))"
    using process_pc_dataSet by blast
  then show ?thesis
    by (simp add: process_stall_reasons_unmapped[OF assms])
qed

lemma process_pc_error:
  "fst (process_pc drv cfg externId isAPI pcData s) = None
   \<or> fst (process_pc drv cfg externId isAPI pcData s)
        = Some (runtime_error ''Invalid stall reason index'')"
proof (cases "\<forall>sr \<in> set (take (stallReasonCount pcData) (stallReason pcData)).
             stallReasonIndexToMetricIndex cfg (unat (pcSamplingStallReasonIndex sr)) \<noteq> None")
  case True
  then show ?thesis using process_pc_mapped by blast
next
  case False
  then have "\<exists>sr \<in> set (take (stallReasonCount pcData) (stallReason pcData)).
             stallReasonIndexToMetricIndex cfg (unat (pcSamplingStallReasonIndex sr)) = None"
    by auto
  from process_pc_unmapped[OF this] show ?thesis by blast
qed

lemma handle_data_mapped:
  "\<forall>pcData \<in> set pcs. \<forall>sr \<in> set (take (stallReasonCount pcData) (stallReason pcData)).
      stallReasonIndexToMetricIndex cfg (unat (pcSamplingStallReasonIndex sr)) \<noteq> None \<Longrightarrow>
   fst (handle_data drv cfg externId isAPI pcs s) = None
   \<and> map (\<lambda>d. map snd (metrics d)) (dataSet (snd (handle_data drv cfg externId isAPI pcs s)))
       = map (\<lambda>d. map snd (metrics d)
                    @ concat (map (\<lambda>pcData. map (stall_metric cfg)
                                (take (stallReasonCount pcData) (stallReason pcData))) pcs))
           (dataSet s)"
proof (induction pcs arbitrary: s)
  case Nil
  show ?case by simp
next
  case (Cons pcData rest)
  obtain e1 s1 where p: "process_pc drv cfg externId isAPI pcData s = (e1, s1)"
    by (cases "process_pc drv cfg externId isAPI pcData s")
  have m: "\<forall>sr \<in> set (take (stallReasonCount pcData) (stallReason pcData)).
             stallReasonIndexToMetricIndex cfg (unat (pcSamplingStallReasonIndex sr)) \<noteq> None"
    using Cons.prems by simp
  have e1: "e1 = None"
    and d1: "map (\<lambda>d. map snd (metrics d)) (dataSet s1)
         = map (\<lambda>d. map snd (metrics d)
                      @ map (stall_metric cfg) (take (stallReasonCount pcData) (stallReason pcData)))
             (dataSet s)"
    using process_pc_mapped[OF m, of drv externId isAPI s] p by simp_all
  have r: "\<forall>pcData \<in> set rest. \<forall>sr \<in> set (take (stallReasonCount pcData) (stallReason pcData)).
      stallReasonIndexToMetricIndex cfg (unat (pcSamplingStallReasonIndex sr)) \<noteq> None"
    using Cons.prems by simp
  have h: "handle_data drv cfg externId isAPI (pcData # rest) s
           = handle_data drv cfg externId isAPI rest s1"
    by (simp add: p e1)
  have "map (\<lambda>d. map snd (metrics d)) (dataSet (snd (handle_data drv cfg externId isAPI rest s1)))
       = map (\<lambda>f. f @ concat (map (\<lambda>pcData. map (stall_metric cfg)
                                (take (stallReasonCount pcData) (stallReason pcData))) rest))
           (map (\<lambda>d. map snd (metrics d)) (dataSet s1))"
    using Cons.IH[OF r, of s1] by (simp add: comp_def)
  then show ?case
    unfolding h d1 using Cons.IH[OF r, of s1] by (simp add: comp_def)
qed

lemma handle_data_unmapped:
  "\<exists>pcData \<in> set pcs. \<exists>sr \<in> set (take (stallReasonCount pcData) (stallReason pcData)).
      stallReasonIndexToMetricIndex cfg (unat (pcSamplingStallReasonIndex sr)) = None \<Longrightarrow>
   fst (handle_data drv cfg externId isAPI pcs s)
     = Some (runtime_error ''Invalid stall reason index'')"
proof (induction pcs arbitrary: s)
  case Nil
  then show ?case by simp
next
  case (Cons pcData rest)
  obtain e1 s1 where p: "process_pc drv cfg externId isAPI pcData s = (e1, s1)"
    by (cases "process_pc drv cfg externId isAPI pcData s")
  show ?case
  proof (cases e1)
    case (Some e)
    then have "e = runtime_error ''Invalid stall reason index''"
      using process_pc_error[of drv cfg externId isAPI pcData s] p by simp
    then show ?thesis using p Some by simp
  next
    case None
    then have "\<not> (\<exists>sr \<in> set (take (stallReasonCount pcData) (stallReason pcData)).
             stallReasonIndexToMetricIndex cfg (unat (pcSamplingStallReasonIndex sr)) = None)"
      using process_pc_unmapped[of pcData cfg drv externId isAPI s] p by fastforce
    then have "\<exists>pcData \<in> set rest.
        \<exists>sr \<in> set (take (stallReasonCount pcData) (stallReason pcData)).
          stallReasonIndexToMetricIndex cfg (unat (pcSamplingStallReasonIndex sr)) = None"
      using Cons.prems by auto
    from Cons.IH[OF this] show ?thesis using p None by simp
  qed
qed

text \<open>
  One round of the \<^verbatim>\<open>while\<close> loop: the first round and a later round with remaining PCs
  fetch and go on; a later round without remaining PCs ends the loop; a round whose
  processing throws ends the loop with the exception.
\<close>

lemma drain_loop_first:
  "handle_data drv cfg externId isAPI
     (take (totalNumPcs (pcSamplingData cfg)) (pPcData (pcSamplingData cfg))) s = (None, s1) \<Longrightarrow>
   drain_loop drv externId isAPI True cfg s =
     drain_loop drv externId isAPI False
       (cfg\<lparr>pcSamplingData := cupti_pcSamplingGetData drv (driverCalls s1) (pcSamplingData cfg)\<rparr>)
       (s1\<lparr>driverCalls := driverCalls s1 @ [pcSamplingGetData (cuContext cfg)]\<rparr>)"
  by (subst drain_loop.simps) (simp add: getPCSamplingData_def issue_def)

lemma drain_loop_more:
  "0 < remainingNumPcs (pcSamplingData cfg) \<Longrightarrow>
   handle_data drv cfg externId isAPI
     (take (totalNumPcs (pcSamplingData cfg)) (pPcData (pcSamplingData cfg))) s = (None, s1) \<Longrightarrow>
   drain_loop drv externId isAPI False cfg s =
     drain_loop drv externId isAPI False
       (cfg\<lparr>pcSamplingData := cupti_pcSamplingGetData drv (driverCalls s1) (pcSamplingData cfg)\<rparr>)
       (s1\<lparr>driverCalls := driverCalls s1 @ [pcSamplingGetData (cuContext cfg)]\<rparr>)"
  by (subst drain_loop.simps) (simp add: getPCSamplingData_def issue_def)

lemma drain_loop_done:
  "remainingNumPcs (pcSamplingData cfg) = 0 \<Longrightarrow>
   handle_data drv cfg externId isAPI
     (take (totalNumPcs (pcSamplingData cfg)) (pPcData (pcSamplingData cfg))) s = (None, s1) \<Longrightarrow>
   drain_loop drv externId isAPI False cfg s = Some (None, cfg, s1)"
  by (subst drain_loop.simps) (cases "totalNumPcs (pcSamplingData cfg) = 0", auto)

lemma drain_loop_throw:
  "fst (handle_data drv cfg externId isAPI
     (take (totalNumPcs (pcSamplingData cfg)) (pPcData (pcSamplingData cfg))) s) = Some e \<Longrightarrow>
   0 < totalNumPcs (pcSamplingData cfg) \<or> 0 < remainingNumPcs (pcSamplingData cfg) \<or> firstRound \<Longrightarrow>
   drain_loop drv externId isAPI firstRound cfg s =
     Some (Some e, cfg, snd (handle_data drv cfg externId isAPI
       (take (totalNumPcs (pcSamplingData cfg)) (pPcData (pcSamplingData cfg))) s))"
  by (subst drain_loop.simps) (auto split: prod.splits)


text \<open>The loop only appends to the list of driver calls.\<close>

lemma drain_loop_calls:
  assumes "drain_loop drv externId isAPI firstRound cfg s = Some r"
  shows "\<exists>rest. driverCalls (snd (snd r)) = driverCalls s @ rest"
proof (rule drain_loop.raw_induct[where P = "\<lambda>drv externId isAPI firstRound cfg s r.
     \<exists>rest. driverCalls (snd (snd r)) = driverCalls s @ rest", OF _ assms])
  fix loop :: "platform \<Rightarrow> nat \<Rightarrow> bool \<Rightarrow> bool \<Rightarrow> ConfigureData \<Rightarrow> CuptiPCSampling \<Rightarrow>
      (error option \<times> ConfigureData \<times> CuptiPCSampling) option"
    and drv externId isAPI firstRound cfg and s :: CuptiPCSampling
    and r :: "error option \<times> ConfigureData \<times> CuptiPCSampling"
  assume ih: "\<And>drv externId isAPI firstRound cfg s r.
      loop drv externId isAPI firstRound cfg s = Some r \<Longrightarrow>
      \<exists>rest. driverCalls (snd (snd r)) = driverCalls s @ rest"
  assume eq0: "(if 0 < totalNumPcs (pcSamplingData cfg) \<or>
    0 < remainingNumPcs (pcSamplingData cfg) \<or> firstRound
 then case handle_data drv cfg externId isAPI
            (take (totalNumPcs (pcSamplingData cfg))
              (pPcData (pcSamplingData cfg)))
            s of
      (None, s') \<Rightarrow>
        if 0 < remainingNumPcs (pcSamplingData cfg) \<or> firstRound
        then case getPCSamplingData drv (cuContext cfg) (pcSamplingData cfg)
                   s' of
             (buf, s'') \<Rightarrow>
               loop drv externId isAPI False (cfg\<lparr>pcSamplingData := buf\<rparr>)
                s''
        else Some (None, cfg, s')
      | (Some e, s') \<Rightarrow> Some (Some e, cfg, s')
 else Some (None, cfg, s)) = Some r"
  obtain e1 s1 where h: "handle_data drv cfg externId isAPI
           (take (totalNumPcs (pcSamplingData cfg)) (pPcData (pcSamplingData cfg))) s = (e1, s1)"
    by (cases "handle_data drv cfg externId isAPI
           (take (totalNumPcs (pcSamplingData cfg)) (pPcData (pcSamplingData cfg))) s")
  have f: "driverCalls s1 = driverCalls s" using handle_data_frame[OF h] by simp
  note eq = eq0[unfolded h]
  show "\<exists>rest. driverCalls (snd (snd r)) = driverCalls s @ rest"
  proof (cases "0 < totalNumPcs (pcSamplingData cfg) \<or> 0 < remainingNumPcs (pcSamplingData cfg)
                 \<or> firstRound")
    case False
    then have "r = (None, cfg, s)" using eq by simp
    then show ?thesis by simp
  next
    case True
    show ?thesis
    proof (cases e1)
      case (Some e)
      then have "r = (Some e, cfg, s1)" using eq True by simp
      then show ?thesis using f by simp
    next
      case None
      show ?thesis
      proof (cases "0 < remainingNumPcs (pcSamplingData cfg) \<or> firstRound")
        case False
        then have "r = (None, cfg, s1)" using eq True None by simp
        then show ?thesis using f by simp
      next
        case c: True
        have "loop drv externId isAPI False
                (cfg\<lparr>pcSamplingData :=
                   cupti_pcSamplingGetData drv (driverCalls s1) (pcSamplingData cfg)\<rparr>)
                (issue (pcSamplingGetData (cuContext cfg)) s1) = Some r"
          using eq True None c by (simp add: getPCSamplingData_def)
        from ih[OF this] f show ?thesis by (auto simp: issue_def)
      qed
    qed
  qed
qed

lemma processPCSamplingData_fetches:
  assumes "processPCSamplingData drv cfg externId isAPI s = Some (None, cfg', s')"
  shows "\<exists>rest. driverCalls s' = driverCalls s @ pcSamplingGetData (cuContext cfg) # rest"
proof -
  obtain e1 s1 where h: "handle_data drv cfg externId isAPI
           (take (totalNumPcs (pcSamplingData cfg)) (pPcData (pcSamplingData cfg))) s = (e1, s1)"
    by (cases "handle_data drv cfg externId isAPI
           (take (totalNumPcs (pcSamplingData cfg)) (pPcData (pcSamplingData cfg))) s")
  have f: "driverCalls s1 = driverCalls s" using handle_data_frame[OF h] by simp
  show ?thesis
  proof (cases e1)
    case (Some e)
    then have "drain_loop drv externId isAPI True cfg s = Some (Some e, cfg, s1)"
      using drain_loop_throw[of drv cfg externId isAPI s e True] h by simp
    then show ?thesis using assms by (simp add: processPCSamplingData_def)
  next
    case None
    then have "drain_loop drv externId isAPI False
       (cfg\<lparr>pcSamplingData := cupti_pcSamplingGetData drv (driverCalls s1) (pcSamplingData cfg)\<rparr>)
       (s1\<lparr>driverCalls := driverCalls s1 @ [pcSamplingGetData (cuContext cfg)]\<rparr>)
        = Some (None, cfg', s')"
      using drain_loop_first[of drv cfg externId isAPI s s1] h assms
      by (simp add: processPCSamplingData_def)
    from drain_loop_calls[OF this] show ?thesis using f by auto
  qed
qed

text \<open>
  Without a file name, the slots of one sample are recorded under the external id, or
  under its child named by the function when the call is API-scoped; no other scope is
  created.
\<close>

lemma addScope_addMetric:
  "addScope p name (addMetric k m (snd (addScope p name d)))
     = (fst (addScope p name d), addMetric k m (snd (addScope p name d)))"
  by (simp add: addScope_def addMetric_def split: option.splits)

lemma fold_record_metric_no_file:
  "fileName li = [] \<Longrightarrow>
   metrics (fold (record_metric cfg externId isAPI li) srs d)
     = metrics d @ map (\<lambda>sr. (if isAPI then fst (addScope externId (functionName li) d)
                                 else externId, stall_metric cfg sr)) srs
   \<and> scopes (fold (record_metric cfg externId isAPI li) srs d)
     = (if isAPI \<and> srs \<noteq> [] then scopes (snd (addScope externId (functionName li) d))
        else scopes d)"
proof (induction srs arbitrary: d)
  case Nil
  show ?case by simp
next
  case (Cons sr srs)
  show ?case
  proof (cases isAPI)
    case False
    then show ?thesis
      using Cons.IH[OF Cons.prems, of "addMetric externId (stall_metric cfg sr) d"] Cons.prems
      by (simp add: record_metric_no_file addMetric_def)
  next
    case True
    define d1 where "d1 = addMetric (fst (addScope externId (functionName li) d))
                             (stall_metric cfg sr) (snd (addScope externId (functionName li) d))"
    have a: "addScope externId (functionName li) d1
             = (fst (addScope externId (functionName li) d), d1)"
      unfolding d1_def by (rule addScope_addMetric)
    have m: "metrics d1 = metrics d @ [(fst (addScope externId (functionName li) d),
                                        stall_metric cfg sr)]"
      "scopes d1 = scopes (snd (addScope externId (functionName li) d))"
      by (simp_all add: d1_def addMetric_def addScope_metrics)
    have r: "record_metric cfg externId isAPI li sr d = d1"
      using True Cons.prems by (simp add: record_metric_no_file d1_def)
    have ih: "metrics (fold (record_metric cfg externId isAPI li) srs d1)
               = metrics d1 @ map (\<lambda>sr. (fst (addScope externId (functionName li) d),
                                           stall_metric cfg sr)) srs"
      "scopes (fold (record_metric cfg externId isAPI li) srs d1) = scopes d1"
      using Cons.IH[OF Cons.prems, of d1] True by (simp_all add: a)
    have fd: "fold (record_metric cfg externId isAPI li) (sr # srs) d
              = fold (record_metric cfg externId isAPI li) srs d1"
      by (simp add: r)
    show ?thesis
      unfolding fd ih m using True by simp
  qed
qed

lemma resolve_line_info_failed:
  assumes "lineInfo (case cubinCrcToCubinData s (pc_cubinCrc pcData) of
                       None \<Rightarrow> default_CubinData | Some e \<Rightarrow> fst e)
             (functionIndex pcData, pcOffset pcData) = None"
    and "cupti_getSassToSourceCorrelation drv
           (cubin (case cubinCrcToCubinData s (pc_cubinCrc pcData) of
                       None \<Rightarrow> default_CubinData | Some e \<Rightarrow> fst e))
           (pc_functionName pcData)
           (cubinSize (case cubinCrcToCubinData s (pc_cubinCrc pcData) of
                       None \<Rightarrow> default_CubinData | Some e \<Rightarrow> fst e))
           (pcOffset pcData) = CorrelationFailed"
  shows "fst (resolve_line_info drv pcData s)
           = \<lparr>lineNumber = 0, functionName = pc_functionName pcData, dirName = [], fileName = []\<rparr>
     \<and> map_option (\<lambda>e. lineInfo (fst e) (functionIndex pcData, pcOffset pcData))
         (cubinCrcToCubinData (snd (resolve_line_info drv pcData s)) (pc_cubinCrc pcData))
         = Some (Some \<lparr>lineNumber = 0, functionName = pc_functionName pcData,
                       dirName = [], fileName = []\<rparr>)"
  using assms
  by (auto simp: resolve_line_info_def subscript_def Let_def getSassToSourceCorrelation_def
      split: option.splits prod.splits)

lemma process_pc_eq:
  "process_pc drv cfg externId isAPI pcData s =
     (fst (process_stall_reasons cfg externId isAPI (fst (resolve_line_info drv pcData s))
             (take (stallReasonCount pcData) (stallReason pcData)) (dataSet s)),
      (snd (resolve_line_info drv pcData s))
        \<lparr>dataSet := snd (process_stall_reasons cfg externId isAPI
                          (fst (resolve_line_info drv pcData s))
                          (take (stallReasonCount pcData) (stallReason pcData)) (dataSet s))\<rparr>)"
proof -
  obtain li s1 where r: "resolve_line_info drv pcData s = (li, s1)"
    by (cases "resolve_line_info drv pcData s")
  have d: "dataSet s1 = dataSet s" using resolve_line_info_frame[of drv pcData s] r by simp
  show ?thesis
    by (simp add: process_pc_def r d split: prod.splits)
qed


text \<open>
  C3. For a stall-reason slot whose index the context's map sends to the kind \<open>k\<close>, the
  loop records in every sink of the data set exactly one metric and goes on with the
  next slot: the metric has kind \<open>k\<close>, the slot's sample count, and the active-stall
  count 0 when the index is in the not-issued set and the sample count otherwise.
  Hence, when every slot of every sample of a buffer carries a mapped index, handling
  the buffer throws nothing and appends to the metrics of every sink exactly the
  metrics of the slots, sample by sample and slot by slot.
\<close>

theorem drain_records_metrics:
  "(stallReasonIndexToMetricIndex cfg (unat (pcSamplingStallReasonIndex sr)) = Some k \<longrightarrow>
      process_stall_reasons cfg externId isAPI li (sr # rest) ds
        = process_stall_reasons cfg externId isAPI li rest
            (map (record_metric cfg externId isAPI li sr) ds)
      \<and> (\<forall>d. \<exists>scopeId.
            metrics (record_metric cfg externId isAPI li sr d)
              = metrics d @
                  [(scopeId,
                    PCSamplingMetric k (unat (samples sr))
                      (if unat (pcSamplingStallReasonIndex sr) \<in> notIssuedStallReasonIndices cfg
                       then 0 else unat (samples sr)))]))
   \<and> ((\<forall>pcData \<in> set pcs. \<forall>sr \<in> set (take (stallReasonCount pcData) (stallReason pcData)).
          stallReasonIndexToMetricIndex cfg (unat (pcSamplingStallReasonIndex sr)) \<noteq> None) \<longrightarrow>
        fst (handle_data drv cfg externId isAPI pcs s) = None
        \<and> map (\<lambda>d. map snd (metrics d)) (dataSet (snd (handle_data drv cfg externId isAPI pcs s)))
            = map (\<lambda>d. map snd (metrics d)
                         @ concat (map (\<lambda>pcData. map (stall_metric cfg)
                                     (take (stallReasonCount pcData) (stallReason pcData))) pcs))
                (dataSet s))"
proof (intro conjI impI allI)
  assume k: "stallReasonIndexToMetricIndex cfg (unat (pcSamplingStallReasonIndex sr)) = Some k"
  show "process_stall_reasons cfg externId isAPI li (sr # rest) ds
        = process_stall_reasons cfg externId isAPI li rest
            (map (record_metric cfg externId isAPI li sr) ds)"
    using k by simp
  fix d
  show "\<exists>scopeId.
            metrics (record_metric cfg externId isAPI li sr d)
              = metrics d @
                  [(scopeId,
                    PCSamplingMetric k (unat (samples sr))
                      (if unat (pcSamplingStallReasonIndex sr) \<in> notIssuedStallReasonIndices cfg
                       then 0 else unat (samples sr)))]"
    using record_metric_metrics[of cfg externId isAPI li sr d]
    unfolding stall_metric_mapped[OF k] .
next
  assume m: "\<forall>pcData \<in> set pcs. \<forall>sr \<in> set (take (stallReasonCount pcData) (stallReason pcData)).
          stallReasonIndexToMetricIndex cfg (unat (pcSamplingStallReasonIndex sr)) \<noteq> None"
  show "fst (handle_data drv cfg externId isAPI pcs s) = None"
    using handle_data_mapped[OF m] by blast
  show "map (\<lambda>d. map snd (metrics d)) (dataSet (snd (handle_data drv cfg externId isAPI pcs s)))
            = map (\<lambda>d. map snd (metrics d)
                         @ concat (map (\<lambda>pcData. map (stall_metric cfg)
                                     (take (stallReasonCount pcData) (stallReason pcData))) pcs))
                (dataSet s)"
    using handle_data_mapped[OF m] by blast
qed

text \<open>
  C3, witness: the example of the claim. One sample with \<^verbatim>\<open>stallReasonCount = 2\<close>, the
  first slot mapped to kind 0 (\<^verbatim>\<open>memory_dependency\<close>) with 10 samples, the second to the
  not-issued kind 1 with 5 samples, yields the records (kind 0, 10, 10) and
  (kind 1, 5, 0), both when the buffer is handled directly and when the sample
  arrives through \<^verbatim>\<open>start\<close> and \<^verbatim>\<open>stop\<close>.
\<close>

theorem drain_records_metrics_witness:
  "stallReasonCount test_sample = 2
   \<and> map (\<lambda>sr. stallReasonIndexToMetricIndex test_cfg (unat (pcSamplingStallReasonIndex sr)))
        (stallReason test_sample) = [Some 0, Some 1]
   \<and> notIssuedStallReasonIndices test_cfg = {8}
   \<and> fst (handle_data test_platform test_cfg 100 True [test_sample] initial_state) = None
   \<and> map metrics (dataSet (snd (handle_data test_platform test_cfg 100 True [test_sample]
                                   initial_state)))
       = [[(1, PCSamplingMetric 0 10 10), (1, PCSamplingMetric 1 5 0)]]
   \<and> map_option (\<lambda>(err, s). (err, map metrics (dataSet s)))
        (stop test_platform 1 100 True (start test_platform 1 initial_state))
       = Some (None, [[(1, PCSamplingMetric 0 10 10), (1, PCSamplingMetric 1 5 0)]])"
proof -
  have a: "stallReasonCount test_sample = 2" by (simp add: test_sample_def)
  have b: "map (\<lambda>sr. stallReasonIndexToMetricIndex test_cfg (unat (pcSamplingStallReasonIndex sr)))
        (stallReason test_sample) = [Some 0, Some 1]"
    by code_simp
  have c: "notIssuedStallReasonIndices test_cfg = {8}" by code_simp
  have m: "\<forall>pcData \<in> set [test_sample].
        \<forall>sr \<in> set (take (stallReasonCount pcData) (stallReason pcData)).
          stallReasonIndexToMetricIndex test_cfg (unat (pcSamplingStallReasonIndex sr)) \<noteq> None"
    using b by (auto simp: test_sample_def)
  have d: "fst (handle_data test_platform test_cfg 100 True [test_sample] initial_state) = None"
    using drain_records_metrics[where cfg = test_cfg and pcs = "[test_sample]"
        and drv = test_platform and externId = 100 and isAPI = True and s = initial_state] m
    by blast
  have e: "map metrics (dataSet (snd (handle_data test_platform test_cfg 100 True [test_sample]
                                   initial_state)))
       = [[(1, PCSamplingMetric 0 10 10), (1, PCSamplingMetric 1 5 0)]]"
    by code_simp
  have f: "map_option (\<lambda>(err, s). (err, map metrics (dataSet s)))
        (stop test_platform 1 100 True (start test_platform 1 initial_state))
       = Some (None, [[(1, PCSamplingMetric 0 10 10), (1, PCSamplingMetric 1 5 0)]])"
    by code_simp
  show ?thesis using a b c d e f by blast
qed

text \<open>
  C4. A slot whose index is absent from the context's map makes the loop over the slots
  throw \<^verbatim>\<open>std::runtime_error("Invalid stall reason index")\<close> at that slot: nothing is
  recorded for it and no later slot is processed. Hence handling a list of samples of
  which one has such a slot throws, and so does the drain, in its first round and in
  any later one, as soon as the buffer it processes holds such a sample.
\<close>

theorem unmapped_index_throws:
  "(stallReasonIndexToMetricIndex cfg (unat (pcSamplingStallReasonIndex sr)) = None \<longrightarrow>
      process_stall_reasons cfg externId isAPI li (sr # rest) ds
        = (Some (runtime_error ''Invalid stall reason index''), ds))
   \<and> ((\<exists>pcData \<in> set pcs. \<exists>sr \<in> set (take (stallReasonCount pcData) (stallReason pcData)).
          stallReasonIndexToMetricIndex cfg (unat (pcSamplingStallReasonIndex sr)) = None) \<longrightarrow>
        fst (handle_data drv cfg externId isAPI pcs s)
          = Some (runtime_error ''Invalid stall reason index''))
   \<and> ((\<exists>pcData \<in> set (take (totalNumPcs (pcSamplingData cfg)) (pPcData (pcSamplingData cfg))).
          \<exists>sr \<in> set (take (stallReasonCount pcData) (stallReason pcData)).
            stallReasonIndexToMetricIndex cfg (unat (pcSamplingStallReasonIndex sr)) = None) \<longrightarrow>
        drain_loop drv externId isAPI firstRound cfg s
          = Some (Some (runtime_error ''Invalid stall reason index''), cfg,
                  snd (handle_data drv cfg externId isAPI
                         (take (totalNumPcs (pcSamplingData cfg)) (pPcData (pcSamplingData cfg))) s))
        \<and> processPCSamplingData drv cfg externId isAPI s
          = Some (Some (runtime_error ''Invalid stall reason index''), cfg,
                  snd (handle_data drv cfg externId isAPI
                         (take (totalNumPcs (pcSamplingData cfg)) (pPcData (pcSamplingData cfg))) s)))"
proof (intro conjI impI)
  assume "stallReasonIndexToMetricIndex cfg (unat (pcSamplingStallReasonIndex sr)) = None"
  then show "process_stall_reasons cfg externId isAPI li (sr # rest) ds
        = (Some (runtime_error ''Invalid stall reason index''), ds)"
    by simp
next
  assume "\<exists>pcData \<in> set pcs. \<exists>sr \<in> set (take (stallReasonCount pcData) (stallReason pcData)).
          stallReasonIndexToMetricIndex cfg (unat (pcSamplingStallReasonIndex sr)) = None"
  then show "fst (handle_data drv cfg externId isAPI pcs s)
          = Some (runtime_error ''Invalid stall reason index'')"
    by (rule handle_data_unmapped)
next
  assume u: "\<exists>pcData \<in> set (take (totalNumPcs (pcSamplingData cfg)) (pPcData (pcSamplingData cfg))).
          \<exists>sr \<in> set (take (stallReasonCount pcData) (stallReason pcData)).
            stallReasonIndexToMetricIndex cfg (unat (pcSamplingStallReasonIndex sr)) = None"
  have p: "0 < totalNumPcs (pcSamplingData cfg)"
  proof (rule ccontr)
    assume "\<not> 0 < totalNumPcs (pcSamplingData cfg)"
    then have z: "totalNumPcs (pcSamplingData cfg) = 0" by simp
    from u show False unfolding z by simp
  qed
  note h = handle_data_unmapped[OF u, of drv externId isAPI s]
  show "drain_loop drv externId isAPI firstRound cfg s
          = Some (Some (runtime_error ''Invalid stall reason index''), cfg,
                  snd (handle_data drv cfg externId isAPI
                         (take (totalNumPcs (pcSamplingData cfg)) (pPcData (pcSamplingData cfg))) s))"
    using drain_loop_throw[OF h] p by blast
  show "processPCSamplingData drv cfg externId isAPI s
          = Some (Some (runtime_error ''Invalid stall reason index''), cfg,
                  snd (handle_data drv cfg externId isAPI
                         (take (totalNumPcs (pcSamplingData cfg)) (pPcData (pcSamplingData cfg))) s))"
    unfolding processPCSamplingData_def using drain_loop_throw[OF h] p by blast
qed

text \<open>
  C4, witness: a sample whose second slot carries the unmapped index 9. The drain
  throws after the metric of the first slot and before any fetch; a \<^verbatim>\<open>stop\<close> on a
  driver that delivers this sample throws too.
\<close>

theorem unmapped_index_throws_witness:
  "stallReasonIndexToMetricIndex test_cfg 9 = None
   \<and> map_option (\<lambda>(err, cfg', s'). (err, map metrics (dataSet s'), driverCalls s'))
        (processPCSamplingData test_platform
           (test_cfg\<lparr>pcSamplingData :=
              (pcSamplingData test_cfg)\<lparr>totalNumPcs := 1, pPcData := [bad_sample]\<rparr>\<rparr>)
           100 True initial_state)
       = Some (Some (runtime_error ''Invalid stall reason index''),
               [[(1, PCSamplingMetric 0 10 10)]], [])
   \<and> map_option fst (stop bad_platform 1 100 True (start bad_platform 1 initial_state))
       = Some (Some (runtime_error ''Invalid stall reason index''))"
proof -
  define cfg where "cfg = test_cfg\<lparr>pcSamplingData :=
              (pcSamplingData test_cfg)\<lparr>totalNumPcs := 1, pPcData := [bad_sample]\<rparr>\<rparr>"
  have a: "stallReasonIndexToMetricIndex test_cfg 9 = None" by code_simp
  have t: "take (totalNumPcs (pcSamplingData cfg)) (pPcData (pcSamplingData cfg)) = [bad_sample]"
    by (simp add: cfg_def)
  have m: "stallReasonIndexToMetricIndex cfg = stallReasonIndexToMetricIndex test_cfg"
    by (simp add: cfg_def)
  have u: "\<exists>pcData \<in> set (take (totalNumPcs (pcSamplingData cfg)) (pPcData (pcSamplingData cfg))).
          \<exists>sr \<in> set (take (stallReasonCount pcData) (stallReason pcData)).
            stallReasonIndexToMetricIndex cfg (unat (pcSamplingStallReasonIndex sr)) = None"
    unfolding t m using a by (simp add: bad_sample_def test_sample_def)
  have p: "processPCSamplingData test_platform cfg 100 True initial_state
          = Some (Some (runtime_error ''Invalid stall reason index''), cfg,
                  snd (handle_data test_platform cfg 100 True
                         (take (totalNumPcs (pcSamplingData cfg)) (pPcData (pcSamplingData cfg)))
                         initial_state))"
    using unmapped_index_throws[where cfg = cfg and drv = test_platform and externId = 100
        and isAPI = True and s = initial_state] u by blast
  have h: "map metrics (dataSet (snd (handle_data test_platform
              (test_cfg\<lparr>pcSamplingData :=
                 (pcSamplingData test_cfg)\<lparr>totalNumPcs := 1, pPcData := [bad_sample]\<rparr>\<rparr>)
              100 True [bad_sample] initial_state)))
           = [[(1, PCSamplingMetric 0 10 10)]]"
    by code_simp
  have d: "driverCalls (snd (handle_data test_platform cfg 100 True [bad_sample] initial_state)) = []"
    using handle_data_frame[of test_platform cfg 100 True "[bad_sample]" initial_state]
    by (cases "handle_data test_platform cfg 100 True [bad_sample] initial_state")
       (simp add: initial_state_def)
  have b: "map_option fst (stop bad_platform 1 100 True (start bad_platform 1 initial_state))
       = Some (Some (runtime_error ''Invalid stall reason index''))"
    by code_simp
  have "map_option (\<lambda>(err, cfg', s'). (err, map metrics (dataSet s'), driverCalls s'))
        (processPCSamplingData test_platform cfg 100 True initial_state)
       = Some (Some (runtime_error ''Invalid stall reason index''),
               [[(1, PCSamplingMetric 0 10 10)]], [])"
    unfolding p t using h d by (simp add: cfg_def)
  then show ?thesis using a b unfolding cfg_def by blast
qed


text \<open>
  C5. When processing the buffer it starts with throws nothing,
  \<^verbatim>\<open>processPCSamplingData\<close> fetches once and goes on as the loop does after its first
  round, whatever \<^verbatim>\<open>totalNumPcs\<close> and \<^verbatim>\<open>remainingNumPcs\<close> are; so every drain that
  returns has begun its driver calls with a fetch. In particular, from a buffer with
  \<^verbatim>\<open>totalNumPcs = 0\<close> and \<^verbatim>\<open>remainingNumPcs = 0\<close>, when the driver answers that fetch
  with no remaining PCs (and the samples it delivers are processed without an
  exception), the drain returns after exactly this one fetch. After the first round the
  loop fetches again when \<^verbatim>\<open>remainingNumPcs > 0\<close>, and returns without a fetch when
  \<^verbatim>\<open>remainingNumPcs = 0\<close>.
\<close>

theorem first_round_always_fetches:
  "(handle_data drv cfg externId isAPI
       (take (totalNumPcs (pcSamplingData cfg)) (pPcData (pcSamplingData cfg))) s = (None, sh) \<longrightarrow>
      processPCSamplingData drv cfg externId isAPI s =
        (case getPCSamplingData drv (cuContext cfg) (pcSamplingData cfg) sh of
           (buf, s2) \<Rightarrow> drain_loop drv externId isAPI False (cfg\<lparr>pcSamplingData := buf\<rparr>) s2))
   \<and> (processPCSamplingData drv cfg externId isAPI s = Some (None, cfg', s') \<longrightarrow>
        (\<exists>rest. driverCalls s' = driverCalls s @ pcSamplingGetData (cuContext cfg) # rest))
   \<and> (totalNumPcs (pcSamplingData cfg) = 0 \<and> remainingNumPcs (pcSamplingData cfg) = 0 \<longrightarrow>
        (case getPCSamplingData drv (cuContext cfg) (pcSamplingData cfg) s of
           (buf, s2) \<Rightarrow>
             remainingNumPcs buf = 0
             \<and> handle_data drv (cfg\<lparr>pcSamplingData := buf\<rparr>) externId isAPI
                  (take (totalNumPcs buf) (pPcData buf)) s2 = (None, sd) \<longrightarrow>
             processPCSamplingData drv cfg externId isAPI s
               = Some (None, cfg\<lparr>pcSamplingData := buf\<rparr>, sd)
             \<and> driverCalls sd = driverCalls s @ [pcSamplingGetData (cuContext cfg)]))
   \<and> (0 < remainingNumPcs (pcSamplingData cfg)
        \<and> handle_data drv cfg externId isAPI
            (take (totalNumPcs (pcSamplingData cfg)) (pPcData (pcSamplingData cfg))) s = (None, sh) \<longrightarrow>
        drain_loop drv externId isAPI False cfg s =
          (case getPCSamplingData drv (cuContext cfg) (pcSamplingData cfg) sh of
             (buf, s2) \<Rightarrow> drain_loop drv externId isAPI False (cfg\<lparr>pcSamplingData := buf\<rparr>) s2))
   \<and> (remainingNumPcs (pcSamplingData cfg) = 0
        \<and> handle_data drv cfg externId isAPI
            (take (totalNumPcs (pcSamplingData cfg)) (pPcData (pcSamplingData cfg))) s = (None, sh) \<longrightarrow>
        drain_loop drv externId isAPI False cfg s = Some (None, cfg, sh)
        \<and> driverCalls sh = driverCalls s)"
proof (intro conjI impI)
  assume "handle_data drv cfg externId isAPI
       (take (totalNumPcs (pcSamplingData cfg)) (pPcData (pcSamplingData cfg))) s = (None, sh)"
  then show "processPCSamplingData drv cfg externId isAPI s =
        (case getPCSamplingData drv (cuContext cfg) (pcSamplingData cfg) sh of
           (buf, s2) \<Rightarrow> drain_loop drv externId isAPI False (cfg\<lparr>pcSamplingData := buf\<rparr>) s2)"
    by (simp add: processPCSamplingData_def drain_loop_first getPCSamplingData_def issue_def)
next
  assume "processPCSamplingData drv cfg externId isAPI s = Some (None, cfg', s')"
  then show "\<exists>rest. driverCalls s' = driverCalls s @ pcSamplingGetData (cuContext cfg) # rest"
    by (rule processPCSamplingData_fetches)
next
  assume z: "totalNumPcs (pcSamplingData cfg) = 0 \<and> remainingNumPcs (pcSamplingData cfg) = 0"
  define buf where "buf = cupti_pcSamplingGetData drv (driverCalls s) (pcSamplingData cfg)"
  define s2 where "s2 = s\<lparr>driverCalls := driverCalls s @ [pcSamplingGetData (cuContext cfg)]\<rparr>"
  have g: "getPCSamplingData drv (cuContext cfg) (pcSamplingData cfg) s = (buf, s2)"
    by (simp add: getPCSamplingData_def issue_def buf_def s2_def)
  have h0: "handle_data drv cfg externId isAPI
       (take (totalNumPcs (pcSamplingData cfg)) (pPcData (pcSamplingData cfg))) s = (None, s)"
    using z by simp
  have f: "drain_loop drv externId isAPI True cfg s
           = drain_loop drv externId isAPI False (cfg\<lparr>pcSamplingData := buf\<rparr>) s2"
    using drain_loop_first[OF h0] by (simp add: buf_def s2_def)
  have "remainingNumPcs buf = 0
             \<and> handle_data drv (cfg\<lparr>pcSamplingData := buf\<rparr>) externId isAPI
                  (take (totalNumPcs buf) (pPcData buf)) s2 = (None, sd) \<longrightarrow>
             processPCSamplingData drv cfg externId isAPI s
               = Some (None, cfg\<lparr>pcSamplingData := buf\<rparr>, sd)
             \<and> driverCalls sd = driverCalls s @ [pcSamplingGetData (cuContext cfg)]"
  proof (intro impI conjI)
    assume a: "remainingNumPcs buf = 0
             \<and> handle_data drv (cfg\<lparr>pcSamplingData := buf\<rparr>) externId isAPI
                  (take (totalNumPcs buf) (pPcData buf)) s2 = (None, sd)"
    have "drain_loop drv externId isAPI False (cfg\<lparr>pcSamplingData := buf\<rparr>) s2
          = Some (None, cfg\<lparr>pcSamplingData := buf\<rparr>, sd)"
      using a by (intro drain_loop_done) simp_all
    then show "processPCSamplingData drv cfg externId isAPI s
               = Some (None, cfg\<lparr>pcSamplingData := buf\<rparr>, sd)"
      by (simp add: processPCSamplingData_def f)
    have "driverCalls sd = driverCalls s2"
      using a handle_data_frame[of drv "cfg\<lparr>pcSamplingData := buf\<rparr>" externId isAPI
          "take (totalNumPcs buf) (pPcData buf)" s2 None sd]
      by simp
    then show "driverCalls sd = driverCalls s @ [pcSamplingGetData (cuContext cfg)]"
      by (simp add: s2_def)
  qed
  then show "case getPCSamplingData drv (cuContext cfg) (pcSamplingData cfg) s of
           (buf, s2) \<Rightarrow>
             remainingNumPcs buf = 0
             \<and> handle_data drv (cfg\<lparr>pcSamplingData := buf\<rparr>) externId isAPI
                  (take (totalNumPcs buf) (pPcData buf)) s2 = (None, sd) \<longrightarrow>
             processPCSamplingData drv cfg externId isAPI s
               = Some (None, cfg\<lparr>pcSamplingData := buf\<rparr>, sd)
             \<and> driverCalls sd = driverCalls s @ [pcSamplingGetData (cuContext cfg)]"
    unfolding g prod.case .
next
  assume "0 < remainingNumPcs (pcSamplingData cfg)
        \<and> handle_data drv cfg externId isAPI
            (take (totalNumPcs (pcSamplingData cfg)) (pPcData (pcSamplingData cfg))) s = (None, sh)"
  then show "drain_loop drv externId isAPI False cfg s =
          (case getPCSamplingData drv (cuContext cfg) (pcSamplingData cfg) sh of
             (buf, s2) \<Rightarrow> drain_loop drv externId isAPI False (cfg\<lparr>pcSamplingData := buf\<rparr>) s2)"
    by (simp add: drain_loop_more getPCSamplingData_def issue_def)
next
  assume a: "remainingNumPcs (pcSamplingData cfg) = 0
        \<and> handle_data drv cfg externId isAPI
            (take (totalNumPcs (pcSamplingData cfg)) (pPcData (pcSamplingData cfg))) s = (None, sh)"
  then show "drain_loop drv externId isAPI False cfg s = Some (None, cfg, sh)"
    by (intro drain_loop_done) simp_all
  show "driverCalls sh = driverCalls s"
    using a handle_data_frame[of drv cfg externId isAPI
        "take (totalNumPcs (pcSamplingData cfg)) (pPcData (pcSamplingData cfg))" s None sh]
    by simp
qed

text \<open>
  C5, witness. From an empty buffer (no PC delivered, none remaining), a driver that never
  has a sample is asked exactly once; a driver that reports one remaining PC with its
  first answer is asked a second time; and a driver that delivers one sample with its
  first answer and reports nothing remaining is asked once.
\<close>

theorem first_round_always_fetches_witness:
  "totalNumPcs (pcSamplingData default_ConfigureData) = 0
   \<and> remainingNumPcs (pcSamplingData default_ConfigureData) = 0
   \<and> map_option (\<lambda>(err, cfg', s'). (err, driverCalls s'))
        (processPCSamplingData quiet_platform default_ConfigureData 100 True initial_state)
       = Some (None, [pcSamplingGetData 0])
   \<and> map_option (\<lambda>(err, cfg', s'). (err, driverCalls s'))
        (processPCSamplingData slow_platform default_ConfigureData 100 True initial_state)
       = Some (None, [pcSamplingGetData 0, pcSamplingGetData 0])
   \<and> map_option (\<lambda>(err, cfg', s'). (err, driverCalls s'))
        (processPCSamplingData test_platform test_cfg 100 True initial_state)
       = Some (None, [pcSamplingGetData 1])"
proof -
  define buf where "buf = default_PCSamplingData\<lparr>totalNumPcs := 0, remainingNumPcs := 0\<rparr>"
  define s2 where "s2 = initial_state\<lparr>driverCalls := [pcSamplingGetData 0]\<rparr>"
  have z: "totalNumPcs (pcSamplingData default_ConfigureData) = 0
           \<and> remainingNumPcs (pcSamplingData default_ConfigureData) = 0"
    by (simp add: default_ConfigureData_def default_PCSamplingData_def)
  have g: "getPCSamplingData quiet_platform (cuContext default_ConfigureData)
             (pcSamplingData default_ConfigureData) initial_state = (buf, s2)"
    by (simp add: getPCSamplingData_def issue_def quiet_platform_def default_ConfigureData_def
        initial_state_def buf_def s2_def)
  have h: "remainingNumPcs buf = 0
           \<and> handle_data quiet_platform (default_ConfigureData\<lparr>pcSamplingData := buf\<rparr>) 100 True
                (take (totalNumPcs buf) (pPcData buf)) s2 = (None, s2)"
    by (simp add: buf_def)
  note w = first_round_always_fetches[where drv = quiet_platform and cfg = default_ConfigureData
      and externId = 100 and isAPI = True and s = initial_state and sd = s2,
      unfolded g prod.case]
  have p: "processPCSamplingData quiet_platform default_ConfigureData 100 True initial_state
             = Some (None, default_ConfigureData\<lparr>pcSamplingData := buf\<rparr>, s2)"
    using w z h by blast
  have a: "map_option (\<lambda>(err, cfg', s'). (err, driverCalls s'))
        (processPCSamplingData quiet_platform default_ConfigureData 100 True initial_state)
       = Some (None, [pcSamplingGetData 0])"
    unfolding p by (simp add: s2_def)
  have b: "map_option (\<lambda>(err, cfg', s'). (err, driverCalls s'))
        (processPCSamplingData slow_platform default_ConfigureData 100 True initial_state)
       = Some (None, [pcSamplingGetData 0, pcSamplingGetData 0])"
    by code_simp
  have c: "map_option (\<lambda>(err, cfg', s'). (err, driverCalls s'))
        (processPCSamplingData test_platform test_cfg 100 True initial_state)
       = Some (None, [pcSamplingGetData 1])"
    by code_simp
  show ?thesis using z a b c by blast
qed

text \<open>
  C8. A failed source-line correlation is not an error. \<^verbatim>\<open>getSassToSourceCorrelation\<close>
  then returns line 0 and empty file and directory names; on a cache miss the line
  identity stored for the PC and used for the sample has the function name of the sample
  and empty file and directory names. When every slot of the sample is mapped, the
  sample is processed without an exception and each sink receives one metric per slot:
  under the scope of the function name below the external id when the call is
  API-scoped, directly under the external id otherwise. The only scope ever added is
  the one keyed by the external id and the function name, and only for an API-scoped
  call of a sample with at least one slot; no scope is keyed by a file name.
\<close>

theorem correlation_failure_not_fatal:
  "(cupti_getSassToSourceCorrelation drv img fn n pc = CorrelationFailed \<longrightarrow>
      getSassToSourceCorrelation drv fn pc img n = (0, [], []))
   \<and> (let ent = (case cubinCrcToCubinData s (pc_cubinCrc pcData) of
                     None \<Rightarrow> default_CubinData | Some e \<Rightarrow> fst e);
            key = (functionIndex pcData, pcOffset pcData);
            slots = take (stallReasonCount pcData) (stallReason pcData);
            li = \<lparr>lineNumber = 0, functionName = pc_functionName pcData,
                  dirName = [], fileName = []\<rparr>
        in lineInfo ent key = None
           \<and> cupti_getSassToSourceCorrelation drv (cubin ent) (pc_functionName pcData)
                (cubinSize ent) (pcOffset pcData) = CorrelationFailed \<longrightarrow>
           fst (resolve_line_info drv pcData s) = li
           \<and> map_option (\<lambda>e. lineInfo (fst e) key)
                (cubinCrcToCubinData (snd (resolve_line_info drv pcData s)) (pc_cubinCrc pcData))
               = Some (Some li)
           \<and> ((\<forall>sr \<in> set slots.
                  stallReasonIndexToMetricIndex cfg (unat (pcSamplingStallReasonIndex sr)) \<noteq> None)
                \<longrightarrow>
                fst (process_pc drv cfg externId isAPI pcData s) = None
                \<and> dataSet (snd (process_pc drv cfg externId isAPI pcData s))
                    = map (fold (record_metric cfg externId isAPI li) slots) (dataSet s)
                \<and> (\<forall>d. metrics (fold (record_metric cfg externId isAPI li) slots d)
                          = metrics d @
                              map (\<lambda>sr. (if isAPI
                                         then fst (addScope externId (pc_functionName pcData) d)
                                         else externId, stall_metric cfg sr)) slots
                        \<and> scopes (fold (record_metric cfg externId isAPI li) slots d)
                          = (if isAPI \<and> slots \<noteq> []
                             then scopes (snd (addScope externId (pc_functionName pcData) d))
                             else scopes d))))
   \<and> (\<forall>k. k \<noteq> (externId, name) \<longrightarrow> scopes (snd (addScope externId name d)) k = scopes d k)"
proof (intro conjI)
  show "cupti_getSassToSourceCorrelation drv img fn n pc = CorrelationFailed \<longrightarrow>
      getSassToSourceCorrelation drv fn pc img n = (0, [], [])"
    by (simp add: getSassToSourceCorrelation_def)
  show "\<forall>k. k \<noteq> (externId, name) \<longrightarrow> scopes (snd (addScope externId name d)) k = scopes d k"
    using addScope_scopes by blast
  define ent where "ent = (case cubinCrcToCubinData s (pc_cubinCrc pcData) of
                     None \<Rightarrow> default_CubinData | Some e \<Rightarrow> fst e)"
  define key where "key = (functionIndex pcData, pcOffset pcData)"
  define slots where "slots = take (stallReasonCount pcData) (stallReason pcData)"
  define li where "li = \<lparr>lineNumber = 0, functionName = pc_functionName pcData,
                  dirName = [], fileName = []\<rparr>"
  have main: "lineInfo ent key = None
           \<and> cupti_getSassToSourceCorrelation drv (cubin ent) (pc_functionName pcData)
                (cubinSize ent) (pcOffset pcData) = CorrelationFailed \<longrightarrow>
           fst (resolve_line_info drv pcData s) = li
           \<and> map_option (\<lambda>e. lineInfo (fst e) key)
                (cubinCrcToCubinData (snd (resolve_line_info drv pcData s)) (pc_cubinCrc pcData))
               = Some (Some li)
           \<and> ((\<forall>sr \<in> set slots.
                  stallReasonIndexToMetricIndex cfg (unat (pcSamplingStallReasonIndex sr)) \<noteq> None)
                \<longrightarrow>
                fst (process_pc drv cfg externId isAPI pcData s) = None
                \<and> dataSet (snd (process_pc drv cfg externId isAPI pcData s))
                    = map (fold (record_metric cfg externId isAPI li) slots) (dataSet s)
                \<and> (\<forall>d. metrics (fold (record_metric cfg externId isAPI li) slots d)
                          = metrics d @
                              map (\<lambda>sr. (if isAPI
                                         then fst (addScope externId (pc_functionName pcData) d)
                                         else externId, stall_metric cfg sr)) slots
                        \<and> scopes (fold (record_metric cfg externId isAPI li) slots d)
                          = (if isAPI \<and> slots \<noteq> []
                             then scopes (snd (addScope externId (pc_functionName pcData) d))
                             else scopes d)))"
  proof (intro impI)
    assume a: "lineInfo ent key = None
           \<and> cupti_getSassToSourceCorrelation drv (cubin ent) (pc_functionName pcData)
                (cubinSize ent) (pcOffset pcData) = CorrelationFailed"
    have r0: "fst (resolve_line_info drv pcData s) = li
      \<and> map_option (\<lambda>e. lineInfo (fst e) key)
                (cubinCrcToCubinData (snd (resolve_line_info drv pcData s)) (pc_cubinCrc pcData))
               = Some (Some li)"
      unfolding key_def li_def
      by (rule resolve_line_info_failed[OF conjunct1[OF a[unfolded ent_def key_def]]
            conjunct2[OF a[unfolded ent_def key_def]]])
    note r = conjunct1[OF r0] conjunct2[OF r0]
    have nf: "fileName li = []" "functionName li = pc_functionName pcData"
      by (simp_all add: li_def)
    have f: "\<forall>d. metrics (fold (record_metric cfg externId isAPI li) slots d)
                          = metrics d @
                              map (\<lambda>sr. (if isAPI
                                         then fst (addScope externId (pc_functionName pcData) d)
                                         else externId, stall_metric cfg sr)) slots
                        \<and> scopes (fold (record_metric cfg externId isAPI li) slots d)
                          = (if isAPI \<and> slots \<noteq> []
                             then scopes (snd (addScope externId (pc_functionName pcData) d))
                             else scopes d)"
      using fold_record_metric_no_file[OF nf(1), of cfg externId isAPI slots]
      unfolding nf(2) by blast
    have p: "(\<forall>sr \<in> set slots.
                  stallReasonIndexToMetricIndex cfg (unat (pcSamplingStallReasonIndex sr)) \<noteq> None)
                \<longrightarrow>
                fst (process_pc drv cfg externId isAPI pcData s) = None
                \<and> dataSet (snd (process_pc drv cfg externId isAPI pcData s))
                    = map (fold (record_metric cfg externId isAPI li) slots) (dataSet s)"
    proof (intro impI)
      assume m: "\<forall>sr \<in> set slots.
                  stallReasonIndexToMetricIndex cfg (unat (pcSamplingStallReasonIndex sr)) \<noteq> None"
      show "fst (process_pc drv cfg externId isAPI pcData s) = None
                \<and> dataSet (snd (process_pc drv cfg externId isAPI pcData s))
                    = map (fold (record_metric cfg externId isAPI li) slots) (dataSet s)"
        unfolding process_pc_eq r(1) slots_def[symmetric]
        by (simp add: process_stall_reasons_mapped[OF m])
    qed
    show "fst (resolve_line_info drv pcData s) = li
           \<and> map_option (\<lambda>e. lineInfo (fst e) key)
                (cubinCrcToCubinData (snd (resolve_line_info drv pcData s)) (pc_cubinCrc pcData))
               = Some (Some li)
           \<and> ((\<forall>sr \<in> set slots.
                  stallReasonIndexToMetricIndex cfg (unat (pcSamplingStallReasonIndex sr)) \<noteq> None)
                \<longrightarrow>
                fst (process_pc drv cfg externId isAPI pcData s) = None
                \<and> dataSet (snd (process_pc drv cfg externId isAPI pcData s))
                    = map (fold (record_metric cfg externId isAPI li) slots) (dataSet s)
                \<and> (\<forall>d. metrics (fold (record_metric cfg externId isAPI li) slots d)
                          = metrics d @
                              map (\<lambda>sr. (if isAPI
                                         then fst (addScope externId (pc_functionName pcData) d)
                                         else externId, stall_metric cfg sr)) slots
                        \<and> scopes (fold (record_metric cfg externId isAPI li) slots d)
                          = (if isAPI \<and> slots \<noteq> []
                             then scopes (snd (addScope externId (pc_functionName pcData) d))
                             else scopes d)))"
      using r p f by blast
  qed
  show "let ent = (case cubinCrcToCubinData s (pc_cubinCrc pcData) of
                     None \<Rightarrow> default_CubinData | Some e \<Rightarrow> fst e);
            key = (functionIndex pcData, pcOffset pcData);
            slots = take (stallReasonCount pcData) (stallReason pcData);
            li = \<lparr>lineNumber = 0, functionName = pc_functionName pcData,
                  dirName = [], fileName = []\<rparr>
        in lineInfo ent key = None
           \<and> cupti_getSassToSourceCorrelation drv (cubin ent) (pc_functionName pcData)
                (cubinSize ent) (pcOffset pcData) = CorrelationFailed \<longrightarrow>
           fst (resolve_line_info drv pcData s) = li
           \<and> map_option (\<lambda>e. lineInfo (fst e) key)
                (cubinCrcToCubinData (snd (resolve_line_info drv pcData s)) (pc_cubinCrc pcData))
               = Some (Some li)
           \<and> ((\<forall>sr \<in> set slots.
                  stallReasonIndexToMetricIndex cfg (unat (pcSamplingStallReasonIndex sr)) \<noteq> None)
                \<longrightarrow>
                fst (process_pc drv cfg externId isAPI pcData s) = None
                \<and> dataSet (snd (process_pc drv cfg externId isAPI pcData s))
                    = map (fold (record_metric cfg externId isAPI li) slots) (dataSet s)
                \<and> (\<forall>d. metrics (fold (record_metric cfg externId isAPI li) slots d)
                          = metrics d @
                              map (\<lambda>sr. (if isAPI
                                         then fst (addScope externId (pc_functionName pcData) d)
                                         else externId, stall_metric cfg sr)) slots
                        \<and> scopes (fold (record_metric cfg externId isAPI li) slots d)
                          = (if isAPI \<and> slots \<noteq> []
                             then scopes (snd (addScope externId (pc_functionName pcData) d))
                             else scopes d)))"
    unfolding Let_def using main unfolding ent_def key_def slots_def li_def .
qed

text \<open>
  C8, witness. The test driver has no line information. Its sample of function
  \<^verbatim>\<open>kernel\<close> yields the two metrics under the new scope 1 (child of the external id 100)
  for an API-scoped call, and under 100 itself, with no scope created, otherwise.
\<close>

theorem correlation_failure_not_fatal_witness:
  "cupti_getSassToSourceCorrelation test_platform None ''kernel'' 0 16 = CorrelationFailed
   \<and> getSassToSourceCorrelation test_platform ''kernel'' 16 None 0 = (0, [], [])
   \<and> fst (resolve_line_info test_platform test_sample initial_state)
       = \<lparr>lineNumber = 0, functionName = ''kernel'', dirName = [], fileName = []\<rparr>
   \<and> fst (process_pc test_platform test_cfg 100 True test_sample initial_state) = None
   \<and> map (\<lambda>d. (metrics d, nextScopeId d, scopes d (100, ''kernel'')))
        (dataSet (snd (process_pc test_platform test_cfg 100 True test_sample initial_state)))
       = [([(1, PCSamplingMetric 0 10 10), (1, PCSamplingMetric 1 5 0)], 2, Some 1)]
   \<and> fst (process_pc test_platform test_cfg 100 False test_sample initial_state) = None
   \<and> map (\<lambda>d. (metrics d, nextScopeId d, scopes d (100, ''kernel'')))
        (dataSet (snd (process_pc test_platform test_cfg 100 False test_sample initial_state)))
       = [([(100, PCSamplingMetric 0 10 10), (100, PCSamplingMetric 1 5 0)], 1, None)]"
proof -
  have a: "cupti_getSassToSourceCorrelation test_platform None ''kernel'' 0 16 = CorrelationFailed"
    by (simp add: test_platform_def)
  have h: "lineInfo (case cubinCrcToCubinData initial_state (pc_cubinCrc test_sample) of
                       None \<Rightarrow> default_CubinData | Some e \<Rightarrow> fst e)
             (functionIndex test_sample, pcOffset test_sample) = None
           \<and> cupti_getSassToSourceCorrelation test_platform
                (cubin (case cubinCrcToCubinData initial_state (pc_cubinCrc test_sample) of
                          None \<Rightarrow> default_CubinData | Some e \<Rightarrow> fst e))
                (pc_functionName test_sample)
                (cubinSize (case cubinCrcToCubinData initial_state (pc_cubinCrc test_sample) of
                              None \<Rightarrow> default_CubinData | Some e \<Rightarrow> fst e))
                (pcOffset test_sample) = CorrelationFailed"
    by (simp add: initial_state_def default_CubinData_def test_platform_def)
  have m: "\<forall>sr \<in> set (take (stallReasonCount test_sample) (stallReason test_sample)).
             stallReasonIndexToMetricIndex test_cfg (unat (pcSamplingStallReasonIndex sr)) \<noteq> None"
  proof -
    have "map (\<lambda>sr. stallReasonIndexToMetricIndex test_cfg (unat (pcSamplingStallReasonIndex sr)))
            (stallReason test_sample) = [Some 0, Some 1]"
      by code_simp
    thus ?thesis by (auto simp: test_sample_def)
  qed
  have n: "pc_functionName test_sample = ''kernel''" by (simp add: test_sample_def)
  note w = correlation_failure_not_fatal[where drv = test_platform and img = None
      and fn = "''kernel''" and n = 0 and pc = 16 and s = initial_state
      and pcData = test_sample and cfg = test_cfg and externId = 100, unfolded Let_def]
  have b: "getSassToSourceCorrelation test_platform ''kernel'' 16 None 0 = (0, [], [])"
    using w[where isAPI = True] a by blast
  have c: "fst (resolve_line_info test_platform test_sample initial_state)
       = \<lparr>lineNumber = 0, functionName = ''kernel'', dirName = [], fileName = []\<rparr>"
    using w[where isAPI = True] h unfolding n by blast
  have d: "fst (process_pc test_platform test_cfg 100 True test_sample initial_state) = None"
    using w[where isAPI = True] h m by blast
  have e: "fst (process_pc test_platform test_cfg 100 False test_sample initial_state) = None"
    using w[where isAPI = False] h m by blast
  have f: "map (\<lambda>d. (metrics d, nextScopeId d, scopes d (100, ''kernel'')))
        (dataSet (snd (process_pc test_platform test_cfg 100 True test_sample initial_state)))
       = [([(1, PCSamplingMetric 0 10 10), (1, PCSamplingMetric 1 5 0)], 2, Some 1)]"
    by code_simp
  have g: "map (\<lambda>d. (metrics d, nextScopeId d, scopes d (100, ''kernel'')))
        (dataSet (snd (process_pc test_platform test_cfg 100 False test_sample initial_state)))
       = [([(100, PCSamplingMetric 0 10 10), (100, PCSamplingMetric 1 5 0)], 1, None)]"
    by code_simp
  show ?thesis using a b c d e f g by blast
qed

end
